theory Spec2Isabelle
  imports Main "HOL-Library.Sublist"
begin

section \<open>The unified data model (src/types/index.ts)\<close>

text \<open>
  The platform classes \<open>SocialPlatform\<close>, \<open>InstagramPlatform\<close>,
  \<open>LinkedInPlatform\<close> and \<open>TwitterPlatform\<close> (the modules platforms/base.ts,
  instagram.ts, linkedin.ts and twitter.ts that src/cli/utils.ts imports) are found in
  src/cli/quote-mentions.ts, one after the other.

  The enums of the source. The string value of each member is what template strings
  and \<open>toUpperCase\<close> see.
\<close>

datatype Platform = TWITTER | INSTAGRAM | LINKEDIN

fun platform_str :: "Platform \<Rightarrow> string" where
  "platform_str TWITTER = ''twitter''"
| "platform_str INSTAGRAM = ''instagram''"
| "platform_str LINKEDIN = ''linkedin''"


datatype EngagementAction = LIKE | COMMENT | SHARE | RETWEET | REPLY

fun action_str :: "EngagementAction \<Rightarrow> string" where
  "action_str LIKE = ''like''"
| "action_str COMMENT = ''comment''"
| "action_str SHARE = ''share''"
| "action_str RETWEET = ''retweet''"
| "action_str REPLY = ''reply''"

record User =
  user_id :: string
  username :: string
  displayName :: string
  avatarUrl :: "string option"
  bio :: "string option"
  followersCount :: "int option"
  followingCount :: "int option"
  verified :: "bool option"

text \<open>
  A \<open>Date\<close> is its time value, milliseconds since the epoch. The fields \<open>isRetweet\<close>
  and \<open>originalPost\<close> of \<open>Post\<close> are assigned nowhere in the adapters.
\<close>

record Post =
  post_id :: string
  platform :: Platform
  author :: User
  content :: string
  timestamp :: int
  mediaUrls :: "string list option"
  likesCount :: "int option"
  commentsCount :: "int option"
  sharesCount :: "int option"
  url :: "string option"

record PlatformConfig =
  apiKey :: "string option"
  apiSecret :: "string option"
  accessToken :: string
  accessSecret :: "string option"
  bearerToken :: "string option"
  clientId :: "string option"
  clientSecret :: "string option"
  userId :: "string option"
  appId :: "string option"
  redirectUri :: "string option"

record PostOptions =
  opt_text :: "string option"
  caption :: "string option"
  mediaPath :: "string option"
  opt_mediaUrls :: "string list option"
  linkUrl :: "string option"
  linkTitle :: "string option"

record FeedOptions =
  feed_limit :: "int option"
  maxResults :: "int option"
  sinceId :: "string option"
  beforeId :: "string option"

record EngagementOptions =
  postId :: string
  action :: EngagementAction
  commentText :: "string option"

record SearchOptions =
  query :: string
  search_limit :: "int option"
  startTime :: "int option"
  endTime :: "int option"

text \<open>
  A JavaScript value found in the \<open>code\<close> or \<open>statusCode\<close> property of a thrown
  object: a number (an HTTP status) or a string (a library's symbolic code). An absent
  property is \<open>None\<close>. Numbers are modelled as integers.
\<close>

datatype jsval = JNum int | JStr string

fun truthy :: "jsval option \<Rightarrow> bool" where
  "truthy None = False"
| "truthy (Some (JNum n)) = (n \<noteq> 0)"
| "truthy (Some (JStr s)) = (s \<noteq> [])"

fun truthy_str :: "string option \<Rightarrow> bool" where
  "truthy_str None = False"
| "truthy_str (Some s) = (s \<noteq> [])"

fun truthy_num :: "int option \<Rightarrow> bool" where
  "truthy_num None = False"
| "truthy_num (Some n) = (n \<noteq> 0)"

text \<open>\<open>a || b\<close> on optional strings, and \<open>a || 'literal'\<close>.\<close>

definition or_str :: "string option \<Rightarrow> string option \<Rightarrow> string option" where
  "or_str a b = (if truthy_str a then a else b)"

definition or_default :: "string option \<Rightarrow> string \<Rightarrow> string" where
  "or_default a d = (if truthy_str a then the a else d)"

definition or_num :: "int option \<Rightarrow> int \<Rightarrow> int" where
  "or_num a d = (if truthy_num a then the a else d)"

text \<open>
  Every object that the code throws or catches, as the properties the code reads or
  writes: \<open>message\<close>, \<open>code\<close>, \<open>statusCode\<close>, \<open>platform\<close>,
  \<open>rateLimit?.reset\<close> (seconds since the epoch, as the Twitter client library
  reports it), \<open>rateLimitReset\<close> (a \<open>Date\<close>, as milliseconds since the epoch),
  \<open>data?.title\<close>, \<open>data?.detail\<close> and \<open>data?.errors?.[0]?.message\<close>.
  A \<open>PlatformError\<close> is such an object with \<open>platform\<close> set by \<open>createError\<close>.

  The last field, \<open>response?.status\<close>, is read by no code of the repository. It is
  where an error of the axios library, through which the Instagram and LinkedIn adapters
  call their vendors, holds the HTTP status of a failed request; the error of the Twitter
  client library holds it in \<open>code\<close>.
\<close>

record error_obj =
  message :: "string option"
  code :: "jsval option"
  statusCode :: "jsval option"
  err_platform :: "Platform option"
  rateLimit_reset :: "int option"
  rateLimitReset :: "int option"
  data_title :: "string option"
  data_detail :: "string option"
  data_errors0_message :: "string option"
  response_status :: "int option"

text \<open>
  What the code asks of the JavaScript runtime: the reading of \<open>Date.now()\<close>,
  \<open>Date.prototype.toLocaleTimeString\<close> (locale dependent) and the parsing done by
  \<open>new Date(string)\<close>.
\<close>

record runtime =
  now :: int
  toLocaleTimeString :: "int \<Rightarrow> string"
  parseDate :: "string \<Rightarrow> int"

text \<open>A runtime for concrete runs: the clock reads 1000000 ms.\<close>

definition example_runtime :: runtime where
  "example_runtime =
     \<lparr>now = 1000000, toLocaleTimeString = (\<lambda>t. ''12:00:00 AM''), parseDate = (\<lambda>s. 0)\<rparr>"

section \<open>The shared base class \<open>SocialPlatform\<close> (platforms/base.ts)\<close>

definition createError :: "Platform \<Rightarrow> string \<Rightarrow> jsval option \<Rightarrow> int option \<Rightarrow> error_obj" where
  "createError p msg sc reset =
     \<lparr>message = Some msg, code = None, statusCode = sc, err_platform = Some p,
      rateLimit_reset = None, rateLimitReset = reset,
      data_title = None, data_detail = None, data_errors0_message = None,
      response_status = None\<rparr>"

text \<open>\<open>error.code === n || error.statusCode === n\<close>, a strict comparison with a number.\<close>

definition is_status :: "error_obj \<Rightarrow> int \<Rightarrow> bool" where
  "is_status e n = (code e = Some (JNum n) \<or> statusCode e = Some (JNum n))"

definition permission_message :: "Platform \<Rightarrow> string \<Rightarrow> string" where
  \<open>permission_message p errorDetail =
     ''Permission denied for '' @ platform_str p @ ''. '' @ errorDetail @ [CHR 0x0A] @
     ''Your Twitter app may not have write permissions. To fix:'' @ [CHR 0x0A] @
     ''1. Go to https://developer.twitter.com/en/portal/projects'' @ [CHR 0x0A] @
     ''2. Select your app '' @ [CHR 0xE2, CHR 0x86, CHR 0x92] @
     '' "User authentication settings"'' @ [CHR 0x0A] @
     ''3. Set App permissions to "Read and write"'' @ [CHR 0x0A] @
     ''4. Regenerate your Access Token and Secret after changing permissions''\<close>

definition credits_message :: string where
  "credits_message =
     ''Twitter API credits depleted. Your account has no remaining credits for this month. '' @
     ''Visit developer.twitter.com to purchase more credits or upgrade your API tier, '' @
     ''or wait for your monthly credits to reset.''"

definition payment_message :: "Platform \<Rightarrow> string" where
  "payment_message p =
     ''Payment required for '' @ platform_str p @ ''. Please check your API subscription status.''"

definition authentication_message :: "Platform \<Rightarrow> string" where
  "authentication_message p =
     ''Authentication failed for '' @ platform_str p @ ''. Please check your credentials.''"

text \<open>
  \<open>handleError\<close> never returns: it throws the error built by \<open>createError\<close>. The model
  returns the thrown error. The branches are in the order of the source.
\<close>

definition handleError :: "Platform \<Rightarrow> runtime \<Rightarrow> error_obj \<Rightarrow> error_obj" where
  "handleError p rt error =
    (if is_status error 429 then
       (let reset = (if truthy_num (rateLimit_reset error)
                     then the (rateLimit_reset error) * 1000
                     else now rt + 15 * 60 * 1000)
        in createError p
             (''Rate limit exceeded for '' @ platform_str p @ ''. Try again after '' @
              toLocaleTimeString rt reset)
             (Some (JNum 429)) (Some reset))
     else if is_status error 401 then
       createError p (authentication_message p) (Some (JNum 401)) None
     else if is_status error 403 then
       (let errorDetail = or_default (or_str (data_detail error) (data_errors0_message error)) []
        in createError p (permission_message p errorDetail) (Some (JNum 403)) None)
     else if is_status error 402 then
       (if data_title error = Some ''CreditsDepleted''
        then createError p credits_message (Some (JNum 402)) None
        else createError p (payment_message p) (Some (JNum 402)) None)
     else
       createError p
         (or_default (message error) (''An error occurred with '' @ platform_str p))
         (if truthy (statusCode error) then statusCode error else code error)
         None)"

section \<open>Asynchronous methods as state, error and network log\<close>

text \<open>
  A method of an adapter runs on the adapter object (the state \<open>'s\<close>), may assign its
  fields, may throw, and may issue requests to the vendor. Its model returns the value or
  the thrown object, the object's fields afterwards (kept when the method throws, as in
  JavaScript), and the requests it issued, in order. The vendor's answer to a request is
  a parameter: \<open>Inl\<close> the object the HTTP library throws, \<open>Inr\<close> the response.
\<close>

type_synonym ('s, 'a) act = "'s \<Rightarrow> (error_obj + 'a) \<times> 's \<times> string list"

definition ret :: "'a \<Rightarrow> ('s, 'a) act" where
  "ret x s = (Inr x, s, [])"

definition throw :: "error_obj \<Rightarrow> ('s, 'a) act" where
  "throw e s = (Inl e, s, [])"

definition gets :: "('s \<Rightarrow> 'a) \<Rightarrow> ('s, 'a) act" where
  "gets f s = (Inr (f s), s, [])"

definition assign :: "('s \<Rightarrow> 's) \<Rightarrow> ('s, unit) act" where
  "assign f s = (Inr (), f s, [])"

definition request :: "string \<Rightarrow> error_obj + 'a \<Rightarrow> ('s, 'a) act" where
  "request name answer s = (answer, s, [name])"

definition bnd :: "('s, 'a) act \<Rightarrow> ('a \<Rightarrow> ('s, 'b) act) \<Rightarrow> ('s, 'b) act" where
  "bnd m f s =
     (case m s of
        (Inl e, s1, l1) \<Rightarrow> (Inl e, s1, l1)
      | (Inr x, s1, l1) \<Rightarrow> (case f x s1 of (r, s2, l2) \<Rightarrow> (r, s2, l1 @ l2)))"

text \<open>
  \<open>try { body } catch (error) { this.handleError(error) }\<close>: whatever the body throws
  is replaced by what \<open>handleError\<close> throws.
\<close>

definition try_catch :: "Platform \<Rightarrow> runtime \<Rightarrow> ('s, 'a) act \<Rightarrow> ('s, 'a) act" where
  "try_catch p rt body s =
     (case body s of
        (Inl e, s1, l) \<Rightarrow> (Inl (handleError p rt e), s1, l)
      | (Inr x, s1, l) \<Rightarrow> (Inr x, s1, l))"

definition first_elem :: "string list option \<Rightarrow> string option" where
  "first_elem xs = (case xs of None \<Rightarrow> None | Some [] \<Rightarrow> None | Some (x # _) \<Rightarrow> Some x)"

definition or_empty :: "'a list option \<Rightarrow> 'a list" where
  "or_empty xs = (case xs of None \<Rightarrow> [] | Some l \<Rightarrow> l)"

definition non_empty :: "string list \<Rightarrow> string list option" where
  "non_empty xs = (if length xs > 0 then Some xs else None)"

section \<open>The Instagram adapter \<open>InstagramPlatform\<close> (platforms/instagram.ts)\<close>

record InstagramMedia =
  im_id :: string
  im_caption :: "string option"
  im_media_type :: string
  im_media_url :: "string option"
  im_permalink :: string
  im_timestamp :: string
  im_username :: string
  im_like_count :: "int option"
  im_comments_count :: "int option"

record InstagramUser =
  iu_id :: string
  iu_username :: string
  iu_name :: "string option"
  iu_profile_picture_url :: "string option"
  iu_biography :: "string option"
  iu_followers_count :: "int option"
  iu_follows_count :: "int option"
  iu_media_count :: "int option"

text \<open>The axios instance: what \<open>axios.create\<close> was given.\<close>

record ig_axios =
  ig_baseURL :: string
  ig_access_token :: string

text \<open>
  The fields of an \<open>InstagramPlatform\<close> object. \<open>platform\<close> is set to
  \<open>Platform.INSTAGRAM\<close> by the constructor and assigned nowhere else, so the model
  writes the constant.
\<close>

record InstagramPlatform =
  ig_config :: PlatformConfig
  ig_client :: "ig_axios option"

definition new_InstagramPlatform :: "PlatformConfig \<Rightarrow> InstagramPlatform" where
  "new_InstagramPlatform cfg = \<lparr>ig_config = cfg, ig_client = None\<rparr>"

text \<open>
  The Graph API as the adapter calls it: one answer per request, by the client used and
  the path and query parameters sent.
\<close>

record ig_vendor =
  ig_get_user :: "ig_axios \<Rightarrow> string option \<Rightarrow> error_obj + InstagramUser"
  ig_get_user_media :: "ig_axios \<Rightarrow> string option \<Rightarrow> int \<Rightarrow> error_obj + InstagramMedia list option"
  ig_post_media :: "ig_axios \<Rightarrow> string option \<Rightarrow> string \<Rightarrow> string \<Rightarrow> error_obj + string"
  ig_post_media_publish :: "ig_axios \<Rightarrow> string option \<Rightarrow> string \<Rightarrow> error_obj + string"
  ig_get_media :: "ig_axios \<Rightarrow> string \<Rightarrow> error_obj + InstagramMedia"
  ig_post_comments :: "ig_axios \<Rightarrow> string \<Rightarrow> string \<Rightarrow> error_obj + unit"

definition mapInstagramUserToUser :: "InstagramUser \<Rightarrow> User" where
  "mapInstagramUserToUser igUser =
     \<lparr>user_id = iu_id igUser,
      username = iu_username igUser,
      displayName = or_default (iu_name igUser) (iu_username igUser),
      avatarUrl = iu_profile_picture_url igUser,
      bio = iu_biography igUser,
      followersCount = iu_followers_count igUser,
      followingCount = iu_follows_count igUser,
      verified = None\<rparr>"

definition mapInstagramMediaToPost :: "runtime \<Rightarrow> InstagramMedia \<Rightarrow> User \<Rightarrow> Post" where
  "mapInstagramMediaToPost rt media me =
     \<lparr>post_id = im_id media,
      platform = INSTAGRAM,
      author = me,
      content = or_default (im_caption media) [],
      timestamp = parseDate rt (im_timestamp media),
      mediaUrls = (if truthy_str (im_media_url media) then Some [the (im_media_url media)] else None),
      likesCount = im_like_count media,
      commentsCount = im_comments_count media,
      sharesCount = None,
      url = Some (im_permalink media)\<rparr>"

definition ig_getMe :: "ig_vendor \<Rightarrow> runtime \<Rightarrow> (InstagramPlatform, User) act" where
  "ig_getMe v rt =
     try_catch INSTAGRAM rt
       (bnd (gets ig_client) (\<lambda>client.
          case client of
            None \<Rightarrow> throw (createError INSTAGRAM ''Not authenticated'' None None)
          | Some c \<Rightarrow>
              bnd (gets (\<lambda>s. userId (ig_config s))) (\<lambda>uid.
              bnd (request ''GET /{userId}'' (ig_get_user v c uid)) (\<lambda>igUser.
              ret (mapInstagramUserToUser igUser)))))"

definition ig_authenticate :: "ig_vendor \<Rightarrow> runtime \<Rightarrow> (InstagramPlatform, unit) act" where
  "ig_authenticate v rt =
     try_catch INSTAGRAM rt
       (bnd (gets ig_config) (\<lambda>cfg.
          if accessToken cfg = [] \<or> \<not> truthy_str (userId cfg)
          then throw (createError INSTAGRAM ''Missing Instagram access token or user ID'' None None)
          else
            bnd (assign (\<lambda>s. s\<lparr>ig_client :=
                   Some \<lparr>ig_baseURL = ''https://graph.instagram.com'',
                         ig_access_token = accessToken cfg\<rparr>\<rparr>)) (\<lambda>_.
            bnd (ig_getMe v rt) (\<lambda>_.
            ret ()))))"

definition ig_getFeed :: "ig_vendor \<Rightarrow> runtime \<Rightarrow> FeedOptions \<Rightarrow> (InstagramPlatform, Post list) act" where
  "ig_getFeed v rt options =
     try_catch INSTAGRAM rt
       (bnd (gets ig_client) (\<lambda>client.
          case client of
            None \<Rightarrow> throw (createError INSTAGRAM ''Not authenticated'' None None)
          | Some c \<Rightarrow>
              bnd (gets (\<lambda>s. userId (ig_config s))) (\<lambda>uid.
              bnd (request ''GET /{userId}/media''
                     (ig_get_user_media v c uid (or_num (feed_limit options) 20))) (\<lambda>data.
              bnd (ig_getMe v rt) (\<lambda>me.
              ret (map (\<lambda>media. mapInstagramMediaToPost rt media me) (or_empty data)))))))"

definition ig_post :: "ig_vendor \<Rightarrow> runtime \<Rightarrow> PostOptions \<Rightarrow> (InstagramPlatform, Post) act" where
  "ig_post v rt options =
     try_catch INSTAGRAM rt
       (bnd (gets ig_client) (\<lambda>client.
          case client of
            None \<Rightarrow> throw (createError INSTAGRAM ''Not authenticated'' None None)
          | Some c \<Rightarrow>
              if \<not> truthy_str (mediaPath options) \<and> \<not> truthy_str (first_elem (opt_mediaUrls options))
              then throw (createError INSTAGRAM
                            ''Instagram requires an image or video URL to post'' None None)
              else
                (let mediaUrl = or_str (first_elem (opt_mediaUrls options)) (mediaPath options) in
                 if \<not> truthy_str mediaUrl
                 then throw (createError INSTAGRAM ''Media URL is required'' None None)
                 else
                   bnd (gets (\<lambda>s. userId (ig_config s))) (\<lambda>uid.
                   bnd (request ''POST /{userId}/media''
                          (ig_post_media v c uid (the mediaUrl)
                             (or_default (or_str (caption options) (opt_text options)) []))) (\<lambda>containerId.
                   bnd (request ''POST /{userId}/media_publish''
                          (ig_post_media_publish v c uid containerId)) (\<lambda>mediaId.
                   bnd (request ''GET /{mediaId}'' (ig_get_media v c mediaId)) (\<lambda>media.
                   bnd (ig_getMe v rt) (\<lambda>me.
                   ret (mapInstagramMediaToPost rt media me)))))))))"

definition ig_engage :: "ig_vendor \<Rightarrow> runtime \<Rightarrow> EngagementOptions \<Rightarrow> (InstagramPlatform, unit) act" where
  "ig_engage v rt options =
     try_catch INSTAGRAM rt
       (bnd (gets ig_client) (\<lambda>client.
          case client of
            None \<Rightarrow> throw (createError INSTAGRAM ''Not authenticated'' None None)
          | Some c \<Rightarrow>
              (case action options of
                 COMMENT \<Rightarrow>
                   if \<not> truthy_str (commentText options)
                   then throw (createError INSTAGRAM ''Comment text is required'' None None)
                   else request ''POST /{postId}/comments''
                          (ig_post_comments v c (postId options) (the (commentText options)))
               | REPLY \<Rightarrow>
                   if \<not> truthy_str (commentText options)
                   then throw (createError INSTAGRAM ''Comment text is required'' None None)
                   else request ''POST /{postId}/comments''
                          (ig_post_comments v c (postId options) (the (commentText options)))
               | LIKE \<Rightarrow>
                   throw (createError INSTAGRAM
                            ''Instagram API does not support liking posts programmatically'' None None)
               | SHARE \<Rightarrow>
                   throw (createError INSTAGRAM
                            ''Instagram API does not support sharing posts programmatically'' None None)
               | RETWEET \<Rightarrow>
                   throw (createError INSTAGRAM
                            (''Unsupported action: '' @ action_str (action options)) None None))))"

definition ig_search :: "ig_vendor \<Rightarrow> runtime \<Rightarrow> SearchOptions \<Rightarrow> (InstagramPlatform, Post list) act" where
  "ig_search v rt options =
     try_catch INSTAGRAM rt
       (bnd (gets ig_client) (\<lambda>client.
          case client of
            None \<Rightarrow> throw (createError INSTAGRAM ''Not authenticated'' None None)
          | Some c \<Rightarrow>
              throw (createError INSTAGRAM
                       (''Instagram API does not support post search. '' @
                        ''Only hashtag search is available with additional permissions.'')
                       None None)))"

section \<open>The LinkedIn adapter \<open>LinkedInPlatform\<close> (platforms/linkedin.ts)\<close>

record LinkedInProfile =
  lp_id :: string
  lp_localizedFirstName :: string
  lp_localizedLastName :: string
  lp_profilePicture_displayImage :: "string option"
  lp_headline :: "string option"

record LinkedInEntity =
  entityLocation :: "string option"
  thumbnails0_resolvedUrl :: "string option"

record LinkedInPost =
  lpost_id :: string
  lpost_author :: string
  lpost_created_time :: int
  lpost_text_text :: "string option"
  lpost_contentEntities :: "LinkedInEntity list option"
  lpost_commentary :: "string option"

record li_axios =
  li_baseURL :: string
  li_authorization :: string

record LinkedInPlatform =
  li_config :: PlatformConfig
  li_client :: "li_axios option"
  profileId :: "string option"

definition new_LinkedInPlatform :: "PlatformConfig \<Rightarrow> LinkedInPlatform" where
  "new_LinkedInPlatform cfg = \<lparr>li_config = cfg, li_client = None, profileId = None\<rparr>"

text \<open>The bodies the adapter posts to \<open>/ugcPosts\<close> and \<open>/socialActions\<close>.\<close>

record ugc_media =
  um_status :: string
  um_originalUrl :: string
  um_title_text :: string

record ugc_post =
  ugc_author :: string
  ugc_lifecycleState :: string
  ugc_shareCommentary_text :: string
  ugc_shareMediaCategory :: string
  ugc_media :: "ugc_media list option"
  ugc_originalShare :: "string option"
  ugc_visibility :: string

record social_action =
  sa_actor :: string
  sa_object :: string
  sa_verb :: "string option"
  sa_message_text :: "string option"

record li_vendor =
  li_get_me :: "li_axios \<Rightarrow> error_obj + LinkedInProfile"
  li_get_ugcPosts :: "li_axios \<Rightarrow> string \<Rightarrow> int \<Rightarrow> error_obj + LinkedInPost list option"
  li_post_ugcPosts :: "li_axios \<Rightarrow> ugc_post \<Rightarrow> error_obj + string"
  li_post_socialActions :: "li_axios \<Rightarrow> social_action \<Rightarrow> error_obj + unit"

definition mapLinkedInProfileToUser :: "LinkedInProfile \<Rightarrow> User" where
  "mapLinkedInProfileToUser profile =
     \<lparr>user_id = lp_id profile,
      username = lp_id profile,
      displayName = lp_localizedFirstName profile @ '' '' @ lp_localizedLastName profile,
      avatarUrl = lp_profilePicture_displayImage profile,
      bio = lp_headline profile,
      followersCount = None,
      followingCount = None,
      verified = None\<rparr>"

fun entity_urls :: "LinkedInEntity list \<Rightarrow> string list" where
  "entity_urls [] = []"
| "entity_urls (entity # rest) =
     (if truthy_str (entityLocation entity) then the (entityLocation entity) # entity_urls rest
      else if truthy_str (thumbnails0_resolvedUrl entity)
      then the (thumbnails0_resolvedUrl entity) # entity_urls rest
      else entity_urls rest)"

definition post_url :: "string \<Rightarrow> string" where
  "post_url i = ''https://www.linkedin.com/feed/update/'' @ i @ ''/''"

definition mapLinkedInPostToPost :: "LinkedInPost \<Rightarrow> User \<Rightarrow> Post" where
  "mapLinkedInPostToPost post me =
     \<lparr>post_id = lpost_id post,
      platform = LINKEDIN,
      author = me,
      content = or_default (or_str (lpost_text_text post) (lpost_commentary post)) [],
      timestamp = lpost_created_time post,
      mediaUrls = non_empty (entity_urls (or_empty (lpost_contentEntities post))),
      likesCount = None,
      commentsCount = None,
      sharesCount = None,
      url = Some (post_url (lpost_id post))\<rparr>"

definition li_not_authenticated :: "('s, 'a) act" where
  "li_not_authenticated = throw (createError LINKEDIN ''Not authenticated'' None None)"

definition person_urn :: "string \<Rightarrow> string" where
  "person_urn pid = ''urn:li:person:'' @ pid"

definition li_getMe :: "li_vendor \<Rightarrow> runtime \<Rightarrow> (LinkedInPlatform, User) act" where
  "li_getMe v rt =
     try_catch LINKEDIN rt
       (bnd (gets li_client) (\<lambda>client.
          case client of
            None \<Rightarrow> li_not_authenticated
          | Some c \<Rightarrow>
              bnd (request ''GET /me'' (li_get_me v c)) (\<lambda>profile.
              ret (mapLinkedInProfileToUser profile))))"

definition li_authenticate :: "li_vendor \<Rightarrow> runtime \<Rightarrow> (LinkedInPlatform, unit) act" where
  "li_authenticate v rt =
     try_catch LINKEDIN rt
       (bnd (gets li_config) (\<lambda>cfg.
          if accessToken cfg = []
          then throw (createError LINKEDIN ''Missing LinkedIn access token'' None None)
          else
            bnd (assign (\<lambda>s. s\<lparr>li_client :=
                   Some \<lparr>li_baseURL = ''https://api.linkedin.com/v2'',
                         li_authorization = ''Bearer '' @ accessToken cfg\<rparr>\<rparr>)) (\<lambda>_.
            bnd (li_getMe v rt) (\<lambda>me.
            assign (\<lambda>s. s\<lparr>profileId := Some (user_id me)\<rparr>)))))"

definition li_getFeed :: "li_vendor \<Rightarrow> runtime \<Rightarrow> FeedOptions \<Rightarrow> (LinkedInPlatform, Post list) act" where
  "li_getFeed v rt options =
     try_catch LINKEDIN rt
       (bnd (gets li_client) (\<lambda>client.
        bnd (gets profileId) (\<lambda>pid.
          case client of
            None \<Rightarrow> li_not_authenticated
          | Some c \<Rightarrow>
              if \<not> truthy_str pid then li_not_authenticated
              else
                bnd (request ''GET /ugcPosts''
                       (li_get_ugcPosts v c (''List('' @ person_urn (the pid) @ '')'')
                          (or_num (feed_limit options) 20))) (\<lambda>elements.
                bnd (li_getMe v rt) (\<lambda>me.
                ret (map (\<lambda>post. mapLinkedInPostToPost post me) (or_empty elements)))))))"

definition li_post :: "li_vendor \<Rightarrow> runtime \<Rightarrow> PostOptions \<Rightarrow> (LinkedInPlatform, Post) act" where
  "li_post v rt options =
     try_catch LINKEDIN rt
       (bnd (gets li_client) (\<lambda>client.
        bnd (gets profileId) (\<lambda>pid.
          case client of
            None \<Rightarrow> li_not_authenticated
          | Some c \<Rightarrow>
              if \<not> truthy_str pid then li_not_authenticated
              else if \<not> truthy_str (opt_text options) \<and> \<not> truthy_str (linkUrl options)
              then throw (createError LINKEDIN ''Post text or link URL is required'' None None)
              else
                (let postData =
                   \<lparr>ugc_author = person_urn (the pid),
                    ugc_lifecycleState = ''PUBLISHED'',
                    ugc_shareCommentary_text = or_default (opt_text options) [],
                    ugc_shareMediaCategory =
                      (if truthy_str (linkUrl options) then ''ARTICLE'' else ''NONE''),
                    ugc_media =
                      (if truthy_str (linkUrl options)
                       then Some [\<lparr>um_status = ''READY'',
                                   um_originalUrl = the (linkUrl options),
                                   um_title_text =
                                     or_default (linkTitle options) (the (linkUrl options))\<rparr>]
                       else None),
                    ugc_originalShare = None,
                    ugc_visibility = ''PUBLIC''\<rparr>
                 in
                   bnd (request ''POST /ugcPosts'' (li_post_ugcPosts v c postData)) (\<lambda>new_id.
                   bnd (li_getMe v rt) (\<lambda>me.
                   ret \<lparr>post_id = new_id,
                        platform = LINKEDIN,
                        author = me,
                        content = or_default (opt_text options) [],
                        timestamp = now rt,
                        mediaUrls = None,
                        likesCount = None,
                        commentsCount = None,
                        sharesCount = None,
                        url = Some (post_url new_id)\<rparr>))))))"

definition li_comment :: "li_vendor \<Rightarrow> li_axios \<Rightarrow> string \<Rightarrow> EngagementOptions \<Rightarrow> (LinkedInPlatform, unit) act" where
  "li_comment v c pid options =
     (if \<not> truthy_str (commentText options)
      then throw (createError LINKEDIN ''Comment text is required'' None None)
      else request ''POST /socialActions''
             (li_post_socialActions v c
                \<lparr>sa_actor = person_urn pid, sa_object = postId options,
                 sa_verb = None, sa_message_text = Some (the (commentText options))\<rparr>))"

definition li_engage :: "li_vendor \<Rightarrow> runtime \<Rightarrow> EngagementOptions \<Rightarrow> (LinkedInPlatform, unit) act" where
  "li_engage v rt options =
     try_catch LINKEDIN rt
       (bnd (gets li_client) (\<lambda>client.
        bnd (gets profileId) (\<lambda>pid.
          case client of
            None \<Rightarrow> li_not_authenticated
          | Some c \<Rightarrow>
              if \<not> truthy_str pid then li_not_authenticated
              else
                (case action options of
                   LIKE \<Rightarrow>
                     request ''POST /socialActions''
                       (li_post_socialActions v c
                          \<lparr>sa_actor = person_urn (the pid), sa_object = postId options,
                           sa_verb = Some ''LIKE'', sa_message_text = None\<rparr>)
                 | COMMENT \<Rightarrow> li_comment v c (the pid) options
                 | REPLY \<Rightarrow> li_comment v c (the pid) options
                 | SHARE \<Rightarrow>
                     bnd (request ''POST /ugcPosts''
                            (li_post_ugcPosts v c
                               \<lparr>ugc_author = person_urn (the pid),
                                ugc_lifecycleState = ''PUBLISHED'',
                                ugc_shareCommentary_text = or_default (commentText options) [],
                                ugc_shareMediaCategory = ''NONE'',
                                ugc_media = None,
                                ugc_originalShare = Some (postId options),
                                ugc_visibility = ''PUBLIC''\<rparr>)) (\<lambda>_.
                     ret ())
                 | RETWEET \<Rightarrow>
                     throw (createError LINKEDIN
                              (''Unsupported action: '' @ action_str (action options)) None None)))))"

definition li_search :: "li_vendor \<Rightarrow> runtime \<Rightarrow> SearchOptions \<Rightarrow> (LinkedInPlatform, Post list) act" where
  "li_search v rt options =
     try_catch LINKEDIN rt
       (bnd (gets li_client) (\<lambda>client.
          case client of
            None \<Rightarrow> li_not_authenticated
          | Some c \<Rightarrow>
              throw (createError LINKEDIN
                       ''LinkedIn API does not support general post search'' None None)))"

section \<open>The Twitter adapter \<open>TwitterPlatform\<close> (platforms/twitter.ts)\<close>

text \<open>The types of the client library, as the fields the adapter reads.\<close>

record UserV2 =
  tu_id :: string
  tu_name :: string
  tu_username :: string
  tu_profile_image_url :: "string option"
  tu_description :: "string option"
  tu_followers_count :: "int option"
  tu_following_count :: "int option"
  tu_verified :: "bool option"

record TweetV2 =
  tweet_id :: string
  tweet_text :: string
  author_id :: "string option"
  created_at :: "string option"
  media_keys :: "string list option"
  like_count :: "int option"
  reply_count :: "int option"
  retweet_count :: "int option"

record MediaObjectV2 =
  media_key :: string
  media_url :: "string option"
  preview_image_url :: "string option"

record Includes =
  inc_users :: "UserV2 list option"
  inc_media :: "MediaObjectV2 list option"

record TweetPage =
  page_data :: "TweetV2 list option"
  page_includes :: "Includes option"

text \<open>
  A \<open>TwitterApi\<close> object is what it was constructed from: the four OAuth 1.0a
  credentials (user context) or a bearer token (app only).
\<close>

datatype TwitterApi = UserContext string string string string | AppOnly string

record TwitterPlatform =
  tw_config :: PlatformConfig
  tw_client :: "TwitterApi option"
  readWriteClient :: "TwitterApi option"

definition new_TwitterPlatform :: "PlatformConfig \<Rightarrow> TwitterPlatform" where
  "new_TwitterPlatform cfg = \<lparr>tw_config = cfg, tw_client = None, readWriteClient = None\<rparr>"

record tw_vendor =
  v2_me :: "TwitterApi \<Rightarrow> error_obj + UserV2"
  v2_homeTimeline :: "TwitterApi \<Rightarrow> int \<Rightarrow> bool \<Rightarrow> error_obj + TweetPage"
  v2_userTimeline :: "TwitterApi \<Rightarrow> string \<Rightarrow> int \<Rightarrow> error_obj + TweetPage"
  v2_search :: "TwitterApi \<Rightarrow> string \<Rightarrow> int \<Rightarrow> int option \<Rightarrow> int option \<Rightarrow> error_obj + TweetPage"
  v1_uploadMedia :: "TwitterApi \<Rightarrow> string \<Rightarrow> error_obj + string"
  v2_tweet :: "TwitterApi \<Rightarrow> string \<Rightarrow> string list option \<Rightarrow> error_obj + string"
  v2_singleTweet :: "TwitterApi \<Rightarrow> string \<Rightarrow> error_obj + TweetV2 \<times> Includes option"
  v2_like :: "TwitterApi \<Rightarrow> string \<Rightarrow> string \<Rightarrow> error_obj + unit"
  v2_retweet :: "TwitterApi \<Rightarrow> string \<Rightarrow> string \<Rightarrow> error_obj + unit"
  v2_reply :: "TwitterApi \<Rightarrow> string \<Rightarrow> string \<Rightarrow> error_obj + unit"

definition mapTwitterUserToUser :: "UserV2 \<Rightarrow> User" where
  "mapTwitterUserToUser twitterUser =
     \<lparr>user_id = tu_id twitterUser,
      username = tu_username twitterUser,
      displayName = tu_name twitterUser,
      avatarUrl = tu_profile_image_url twitterUser,
      bio = tu_description twitterUser,
      followersCount = tu_followers_count twitterUser,
      followingCount = tu_following_count twitterUser,
      verified = tu_verified twitterUser\<rparr>"

definition unknown_author :: "TweetV2 \<Rightarrow> User" where
  "unknown_author tweet =
     \<lparr>user_id = or_default (author_id tweet) ''unknown'',
      username = ''unknown'',
      displayName = ''Unknown User'',
      avatarUrl = None, bio = None, followersCount = None, followingCount = None,
      verified = None\<rparr>"

text \<open>
  \<open>includes.users.find(u => u.id === tweet.author_id)\<close>: the first user whose id is
  the tweet's \<open>author_id\<close>; an absent \<open>author_id\<close> equals no id.
\<close>

definition find_author :: "UserV2 list \<Rightarrow> TweetV2 \<Rightarrow> UserV2 option" where
  "find_author users tweet = find (\<lambda>u. Some (tu_id u) = author_id tweet) users"

definition tweet_author :: "TweetV2 \<Rightarrow> Includes option \<Rightarrow> User" where
  "tweet_author tweet includes =
     (case includes of
        None \<Rightarrow> unknown_author tweet
      | Some inc \<Rightarrow>
          (case inc_users inc of
             None \<Rightarrow> unknown_author tweet
           | Some users \<Rightarrow>
               (case find_author users tweet of
                  Some twitterUser \<Rightarrow> mapTwitterUserToUser twitterUser
                | None \<Rightarrow> unknown_author tweet)))"

fun tweet_media_urls :: "MediaObjectV2 list \<Rightarrow> string list \<Rightarrow> string list" where
  "tweet_media_urls media [] = []"
| "tweet_media_urls media (mediaKey # rest) =
     (case find (\<lambda>m. media_key m = mediaKey) media of
        None \<Rightarrow> tweet_media_urls media rest
      | Some m \<Rightarrow>
          if truthy_str (media_url m) then the (media_url m) # tweet_media_urls media rest
          else if truthy_str (preview_image_url m)
          then the (preview_image_url m) # tweet_media_urls media rest
          else tweet_media_urls media rest)"

definition mapTwitterTweetToPost :: "runtime \<Rightarrow> TweetV2 \<Rightarrow> Includes option \<Rightarrow> Post" where
  "mapTwitterTweetToPost rt tweet includes =
     (let author = tweet_author tweet includes;
          urls = (case (media_keys tweet, includes) of
                    (Some keys, Some inc) \<Rightarrow>
                      (case inc_media inc of
                         Some media \<Rightarrow> tweet_media_urls media keys
                       | None \<Rightarrow> [])
                  | _ \<Rightarrow> [])
      in \<lparr>post_id = tweet_id tweet,
          platform = TWITTER,
          author = author,
          content = tweet_text tweet,
          timestamp = (if truthy_str (created_at tweet) then parseDate rt (the (created_at tweet))
                       else now rt),
          mediaUrls = non_empty urls,
          likesCount = like_count tweet,
          commentsCount = reply_count tweet,
          sharesCount = retweet_count tweet,
          url = Some (''https://twitter.com/'' @ username author @ ''/status/'' @ tweet_id tweet)\<rparr>)"

definition map_page :: "runtime \<Rightarrow> TweetPage \<Rightarrow> Post list" where
  "map_page rt page =
     map (\<lambda>tweet. mapTwitterTweetToPost rt tweet (page_includes page)) (or_empty (page_data page))"

definition tw_not_authenticated :: "('s, 'a) act" where
  "tw_not_authenticated = throw (createError TWITTER ''Not authenticated'' None None)"

definition tw_no_write_access :: "('s, 'a) act" where
  "tw_no_write_access =
     throw (createError TWITTER ''Write access not available. Need OAuth 1.0a credentials.'' None None)"

definition tw_getMe :: "tw_vendor \<Rightarrow> runtime \<Rightarrow> (TwitterPlatform, User) act" where
  "tw_getMe v rt =
     try_catch TWITTER rt
       (bnd (gets tw_client) (\<lambda>client.
          case client of
            None \<Rightarrow> tw_not_authenticated
          | Some c \<Rightarrow>
              bnd (request ''v2.me'' (v2_me v c)) (\<lambda>me.
              ret (mapTwitterUserToUser me))))"

definition tw_authenticate :: "tw_vendor \<Rightarrow> runtime \<Rightarrow> (TwitterPlatform, unit) act" where
  "tw_authenticate v rt =
     try_catch TWITTER rt
       (bnd (gets tw_config) (\<lambda>cfg.
        bnd (if truthy_str (apiKey cfg) \<and> truthy_str (apiSecret cfg) \<and>
                accessToken cfg \<noteq> [] \<and> truthy_str (accessSecret cfg)
             then assign (\<lambda>s. s\<lparr>tw_client :=
                                   Some (UserContext (the (apiKey cfg)) (the (apiSecret cfg))
                                           (accessToken cfg) (the (accessSecret cfg))),
                                 readWriteClient :=
                                   Some (UserContext (the (apiKey cfg)) (the (apiSecret cfg))
                                           (accessToken cfg) (the (accessSecret cfg)))\<rparr>)
             else if truthy_str (bearerToken cfg)
             then assign (\<lambda>s. s\<lparr>tw_client := Some (AppOnly (the (bearerToken cfg)))\<rparr>)
             else throw (createError TWITTER ''Missing Twitter API credentials'' None None)) (\<lambda>_.
        bnd (tw_getMe v rt) (\<lambda>_.
        ret ()))))"

definition tw_getFeed :: "tw_vendor \<Rightarrow> runtime \<Rightarrow> FeedOptions \<Rightarrow> (TwitterPlatform, Post list) act" where
  "tw_getFeed v rt options =
     try_catch TWITTER rt
       (bnd (gets tw_client) (\<lambda>client.
          case client of
            None \<Rightarrow> tw_not_authenticated
          | Some c \<Rightarrow>
              bnd (tw_getMe v rt) (\<lambda>me.
              bnd (request ''v2.homeTimeline''
                     (v2_homeTimeline v c (or_num (feed_limit options) 20) False)) (\<lambda>timeline.
              ret (map_page rt timeline)))))"

fun upload_all :: "tw_vendor \<Rightarrow> TwitterApi \<Rightarrow> string list \<Rightarrow> (TwitterPlatform, string list) act" where
  "upload_all v c [] = ret []"
| "upload_all v c (mediaUrl # rest) =
     bnd (request ''v1.uploadMedia'' (v1_uploadMedia v c mediaUrl)) (\<lambda>mediaId.
     bnd (upload_all v c rest) (\<lambda>mediaIds.
     ret (mediaId # mediaIds)))"

definition tw_post :: "tw_vendor \<Rightarrow> runtime \<Rightarrow> PostOptions \<Rightarrow> (TwitterPlatform, Post) act" where
  "tw_post v rt options =
     try_catch TWITTER rt
       (bnd (gets readWriteClient) (\<lambda>client.
          case client of
            None \<Rightarrow> tw_no_write_access
          | Some c \<Rightarrow>
              if \<not> truthy_str (opt_text options)
              then throw (createError TWITTER ''Tweet text is required'' None None)
              else
                bnd (case opt_mediaUrls options of
                       None \<Rightarrow> ret None
                     | Some urls \<Rightarrow>
                         if length urls > 0
                         then bnd (upload_all v c urls) (\<lambda>mediaIds. ret (Some mediaIds))
                         else ret None) (\<lambda>media_ids.
                bnd (request ''v2.tweet'' (v2_tweet v c (the (opt_text options)) media_ids)) (\<lambda>new_id.
                bnd (request ''v2.singleTweet'' (v2_singleTweet v c new_id)) (\<lambda>fullTweet.
                ret (mapTwitterTweetToPost rt (fst fullTweet) (snd fullTweet)))))))"

definition tw_engage :: "tw_vendor \<Rightarrow> runtime \<Rightarrow> EngagementOptions \<Rightarrow> (TwitterPlatform, unit) act" where
  "tw_engage v rt options =
     try_catch TWITTER rt
       (bnd (gets readWriteClient) (\<lambda>client.
          case client of
            None \<Rightarrow> tw_no_write_access
          | Some c \<Rightarrow>
              bnd (tw_getMe v rt) (\<lambda>me.
              case action options of
                LIKE \<Rightarrow> request ''v2.like'' (v2_like v c (user_id me) (postId options))
              | RETWEET \<Rightarrow> request ''v2.retweet'' (v2_retweet v c (user_id me) (postId options))
              | REPLY \<Rightarrow>
                  if \<not> truthy_str (commentText options)
                  then throw (createError TWITTER ''Comment text is required for replies'' None None)
                  else request ''v2.reply''
                         (v2_reply v c (the (commentText options)) (postId options))
              | COMMENT \<Rightarrow>
                  if \<not> truthy_str (commentText options)
                  then throw (createError TWITTER ''Comment text is required for replies'' None None)
                  else request ''v2.reply''
                         (v2_reply v c (the (commentText options)) (postId options))
              | SHARE \<Rightarrow>
                  throw (createError TWITTER
                           (''Unsupported action: '' @ action_str (action options)) None None))))"

definition tw_getFollowingFeed :: "tw_vendor \<Rightarrow> runtime \<Rightarrow> int \<Rightarrow> (TwitterPlatform, Post list) act" where
  "tw_getFollowingFeed v rt limit =
     try_catch TWITTER rt
       (bnd (gets tw_client) (\<lambda>client.
          case client of
            None \<Rightarrow> tw_not_authenticated
          | Some c \<Rightarrow>
              bnd (request ''v2.homeTimeline''
                     (v2_homeTimeline v c (min (max limit 1) 100) True)) (\<lambda>timeline.
              ret (map_page rt timeline))))"

definition tw_getMyPosts :: "tw_vendor \<Rightarrow> runtime \<Rightarrow> int \<Rightarrow> (TwitterPlatform, Post list) act" where
  "tw_getMyPosts v rt limit =
     try_catch TWITTER rt
       (bnd (gets tw_client) (\<lambda>client.
          case client of
            None \<Rightarrow> tw_not_authenticated
          | Some c \<Rightarrow>
              bnd (tw_getMe v rt) (\<lambda>me.
              bnd (request ''v2.userTimeline''
                     (v2_userTimeline v c (user_id me) (min (max limit 5) 100))) (\<lambda>timeline.
              ret (map_page rt timeline)))))"

definition tw_search :: "tw_vendor \<Rightarrow> runtime \<Rightarrow> SearchOptions \<Rightarrow> (TwitterPlatform, Post list) act" where
  "tw_search v rt options =
     try_catch TWITTER rt
       (bnd (gets tw_client) (\<lambda>client.
          case client of
            None \<Rightarrow> tw_not_authenticated
          | Some c \<Rightarrow>
              bnd (request ''v2.search''
                     (v2_search v c (query options) (or_num (search_limit options) 20)
                        (startTime options) (endTime options))) (\<lambda>searchResults.
              ret (map_page rt searchResults))))"

section \<open>The dispatcher (src/cli/utils.ts, src/cli/commands/post.ts, src/auth/storage.ts)\<close>











text \<open>
  Everything outside the program that a command run depends on: the environment, the
  three vendors and the runtime.
\<close>

record world =
  w_env :: "string \<Rightarrow> string option"
  w_twitter :: tw_vendor
  w_instagram :: ig_vendor
  w_linkedin :: li_vendor
  w_rt :: runtime









record PostCommandOptions =
  cmd_platform :: string
  cmd_media :: "string option"
  cmd_link :: "string option"
  cmd_linkTitle :: "string option"
  cmd_caption :: "string option"






section \<open>Concrete vendors and environments for runs\<close>

definition ada :: UserV2 where
  "ada = \<lparr>tu_id = ''7'', tu_name = ''Ada'', tu_username = ''ada'',
           tu_profile_image_url = None, tu_description = None,
           tu_followers_count = None, tu_following_count = None, tu_verified = None\<rparr>"

definition hello_tweet :: TweetV2 where
  "hello_tweet = \<lparr>tweet_id = ''100'', tweet_text = ''hello'', author_id = Some ''7'',
                   created_at = None, media_keys = None,
                   like_count = None, reply_count = None, retweet_count = None\<rparr>"

definition orphan_tweet :: TweetV2 where
  "orphan_tweet = \<lparr>tweet_id = ''101'', tweet_text = ''hi'', author_id = Some ''8'',
                    created_at = None, media_keys = None,
                    like_count = None, reply_count = None, retweet_count = None\<rparr>"

definition hello_page :: TweetPage where
  "hello_page = \<lparr>page_data = Some [hello_tweet, orphan_tweet],
                  page_includes = Some \<lparr>inc_users = Some [ada], inc_media = None\<rparr>\<rparr>"

text \<open>A Twitter API that accepts every request.\<close>

definition twitter_ok :: tw_vendor where
  "twitter_ok =
     \<lparr>v2_me = (\<lambda>c. Inr ada),
      v2_homeTimeline = (\<lambda>c n x. Inr hello_page),
      v2_userTimeline = (\<lambda>c u n. Inr hello_page),
      v2_search = (\<lambda>c q n a b. Inr hello_page),
      v1_uploadMedia = (\<lambda>c u. Inr ''m1''),
      v2_tweet = (\<lambda>c t m. Inr ''100''),
      v2_singleTweet = (\<lambda>c i. Inr (hello_tweet, None)),
      v2_like = (\<lambda>c u i. Inr ()),
      v2_retweet = (\<lambda>c u i. Inr ()),
      v2_reply = (\<lambda>c t i. Inr ())\<rparr>"

text \<open>
  The error object of the Twitter client library for an HTTP 429 whose rate-limit
  headers give the reset time 1700000000 (seconds since the epoch).
\<close>

definition too_many_requests :: error_obj where
  "too_many_requests =
     \<lparr>message = Some ''Request failed with code 429'', code = Some (JNum 429),
      statusCode = None, err_platform = None, rateLimit_reset = Some 1700000000,
      rateLimitReset = None, data_title = None, data_detail = None,
      data_errors0_message = None,
      response_status = None\<rparr>"

text \<open>
  The error object of the Twitter client library for the HTTP 402 that the repository's
  error analysis records.
\<close>

definition credits_depleted :: error_obj where
  "credits_depleted =
     \<lparr>message = Some ''Request failed with code 402'', code = Some (JNum 402),
      statusCode = None, err_platform = None, rateLimit_reset = None,
      rateLimitReset = None, data_title = Some ''CreditsDepleted'',
      data_detail = Some ''Your enrolled account does not have any credits to fulfill this request.'',
      data_errors0_message = None, response_status = None\<rparr>"

text \<open>The error object of the Twitter client library for an HTTP 401.\<close>

definition unauthorized :: error_obj where
  "unauthorized =
     \<lparr>message = Some ''Request failed with code 401'', code = Some (JNum 401),
      statusCode = None, err_platform = None, rateLimit_reset = None,
      rateLimitReset = None, data_title = None, data_detail = None,
      data_errors0_message = None, response_status = None\<rparr>"

text \<open>
  The error object of axios for a request answered with HTTP 401: the status is in
  \<open>response.status\<close>, \<open>code\<close> is the library's string, there is no \<open>statusCode\<close>.
\<close>

definition axios_unauthorized :: error_obj where
  "axios_unauthorized =
     \<lparr>message = Some ''Request failed with status code 401'',
      code = Some (JStr ''ERR_BAD_REQUEST''),
      statusCode = None, err_platform = None, rateLimit_reset = None,
      rateLimitReset = None, data_title = None, data_detail = None,
      data_errors0_message = None, response_status = Some 401\<rparr>"

text \<open>
  The error object of the Twitter client library for an HTTP 403, and a Twitter API whose
  app has no write permission: it answers every new tweet with that error.
\<close>

definition forbidden :: error_obj where
  "forbidden =
     \<lparr>message = Some ''Request failed with code 403'', code = Some (JNum 403),
      statusCode = None, err_platform = None, rateLimit_reset = None,
      rateLimitReset = None, data_title = Some ''Forbidden'',
      data_detail = Some ''You are not permitted to perform this action.'',
      data_errors0_message = None, response_status = None\<rparr>"

definition twitter_read_only :: tw_vendor where
  "twitter_read_only = twitter_ok\<lparr>v2_tweet := (\<lambda>c t m. Inl forbidden)\<rparr>"

text \<open>A Twitter API that answers the request for the own profile with the HTTP 402.\<close>

definition twitter_no_credits :: tw_vendor where
  "twitter_no_credits = twitter_ok\<lparr>v2_me := (\<lambda>c. Inl credits_depleted)\<rparr>"

text \<open>A Twitter API that answers the request for the own profile with that error.\<close>

definition twitter_rate_limited :: tw_vendor where
  "twitter_rate_limited = twitter_ok\<lparr>v2_me := (\<lambda>c. Inl too_many_requests)\<rparr>"

definition ig_ada :: InstagramUser where
  "ig_ada = \<lparr>iu_id = ''17'', iu_username = ''ada'', iu_name = None,
              iu_profile_picture_url = None, iu_biography = None,
              iu_followers_count = None, iu_follows_count = None, iu_media_count = None\<rparr>"

definition ig_hello :: InstagramMedia where
  "ig_hello = \<lparr>im_id = ''200'', im_caption = Some ''hello'', im_media_type = ''IMAGE'',
                im_media_url = Some ''https://example.org/a.jpg'',
                im_permalink = ''https://www.instagram.com/p/200/'',
                im_timestamp = ''2025-01-01T00:00:00+0000'', im_username = ''ada'',
                im_like_count = None, im_comments_count = None\<rparr>"

definition instagram_ok :: ig_vendor where
  "instagram_ok =
     \<lparr>ig_get_user = (\<lambda>c u. Inr ig_ada),
      ig_get_user_media = (\<lambda>c u n. Inr (Some [ig_hello])),
      ig_post_media = (\<lambda>c u i t. Inr ''199''),
      ig_post_media_publish = (\<lambda>c u i. Inr ''200''),
      ig_get_media = (\<lambda>c i. Inr ig_hello),
      ig_post_comments = (\<lambda>c i t. Inr ())\<rparr>"

definition li_ada :: LinkedInProfile where
  "li_ada = \<lparr>lp_id = ''abc'', lp_localizedFirstName = ''Ada'', lp_localizedLastName = ''L'',
              lp_profilePicture_displayImage = None, lp_headline = None\<rparr>"

definition li_hello :: LinkedInPost where
  "li_hello = \<lparr>lpost_id = ''urn:li:share:300'', lpost_author = ''urn:li:person:abc'',
                lpost_created_time = 0, lpost_text_text = Some ''hello'',
                lpost_contentEntities = None, lpost_commentary = None\<rparr>"

definition linkedin_ok :: li_vendor where
  "linkedin_ok =
     \<lparr>li_get_me = (\<lambda>c. Inr li_ada),
      li_get_ugcPosts = (\<lambda>c a n. Inr (Some [li_hello])),
      li_post_ugcPosts = (\<lambda>c d. Inr ''urn:li:share:300''),
      li_post_socialActions = (\<lambda>c a. Inr ())\<rparr>"

text \<open>
  The error object of axios for a request that got no answer, and a LinkedIn API that
  cannot be reached.
\<close>

definition network_error :: error_obj where
  "network_error =
     \<lparr>message = Some ''Network Error'', code = Some (JStr ''ERR_NETWORK''),
      statusCode = None, err_platform = None, rateLimit_reset = None,
      rateLimitReset = None, data_title = None, data_detail = None,
      data_errors0_message = None, response_status = None\<rparr>"

definition linkedin_unreachable :: li_vendor where
  "linkedin_unreachable = linkedin_ok\<lparr>li_get_me := (\<lambda>c. Inl network_error)\<rparr>"

text \<open>A LinkedIn API that answers the profile request with HTTP 401 (an expired token).\<close>

definition linkedin_expired :: li_vendor where
  "linkedin_expired = linkedin_ok\<lparr>li_get_me := (\<lambda>c. Inl axios_unauthorized)\<rparr>"

text \<open>A Graph API that answers the profile request with HTTP 401 (an expired token).\<close>

definition instagram_expired :: ig_vendor where
  "instagram_expired = instagram_ok\<lparr>ig_get_user := (\<lambda>c u. Inl axios_unauthorized)\<rparr>"

definition oauth_config :: PlatformConfig where
  "oauth_config =
     \<lparr>apiKey = Some ''k'', apiSecret = Some ''s'', accessToken = ''t'',
      accessSecret = Some ''a'', bearerToken = None, clientId = None, clientSecret = None,
      userId = Some ''17'', appId = None, redirectUri = None\<rparr>"

definition oauth_client :: TwitterApi where
  "oauth_client = UserContext ''k'' ''s'' ''t'' ''a''"

text \<open>A configuration with a bearer token alone, and one with no credential at all.\<close>

definition bearer_config :: PlatformConfig where
  "bearer_config =
     \<lparr>apiKey = None, apiSecret = None, accessToken = [],
      accessSecret = None, bearerToken = Some ''b'', clientId = None, clientSecret = None,
      userId = None, appId = None, redirectUri = None\<rparr>"

definition no_credentials :: PlatformConfig where
  "no_credentials =
     \<lparr>apiKey = None, apiSecret = None, accessToken = [],
      accessSecret = None, bearerToken = None, clientId = None, clientSecret = None,
      userId = None, appId = None, redirectUri = None\<rparr>"

text \<open>
  An environment with the four Twitter credentials and a LinkedIn token, and one with
  the LinkedIn token alone.
\<close>

definition env_both :: "string \<Rightarrow> string option" where
  "env_both =
     map_of [(''TWITTER_API_KEY'', ''k''), (''TWITTER_API_SECRET'', ''s''),
             (''TWITTER_ACCESS_TOKEN'', ''t''), (''TWITTER_ACCESS_SECRET'', ''a''),
             (''LINKEDIN_ACCESS_TOKEN'', ''l'')]"

definition env_linkedin_only :: "string \<Rightarrow> string option" where
  "env_linkedin_only = map_of [(''LINKEDIN_ACCESS_TOKEN'', ''l'')]"

text \<open>The world of a run: an environment, a Twitter API, and the two other vendors.\<close>

definition world_of :: "(string \<Rightarrow> string option) \<Rightarrow> tw_vendor \<Rightarrow> world" where
  "world_of e tv =
     \<lparr>w_env = e, w_twitter = tv, w_instagram = instagram_ok,
      w_linkedin = linkedin_ok, w_rt = example_runtime\<rparr>"

definition cross_post :: PostCommandOptions where
  "cross_post =
     \<lparr>cmd_platform = ''twitter,linkedin'', cmd_media = None, cmd_link = None,
      cmd_linkTitle = None, cmd_caption = None\<rparr>"

definition text_only :: "string \<Rightarrow> PostOptions" where
  "text_only t =
     \<lparr>opt_text = Some t, caption = None, mediaPath = None, opt_mediaUrls = None,
      linkUrl = None, linkTitle = None\<rparr>"

text \<open>The three adapters after \<open>authenticate()\<close> has succeeded against these vendors.\<close>

definition tw_authenticated :: TwitterPlatform where
  "tw_authenticated =
     \<lparr>tw_config = oauth_config, tw_client = Some oauth_client,
      readWriteClient = Some oauth_client\<rparr>"

definition ig_axios_t :: ig_axios where
  "ig_axios_t = \<lparr>ig_baseURL = ''https://graph.instagram.com'', ig_access_token = ''t''\<rparr>"

definition ig_authenticated :: InstagramPlatform where
  "ig_authenticated = \<lparr>ig_config = oauth_config, ig_client = Some ig_axios_t\<rparr>"

definition li_axios_t :: li_axios where
  "li_axios_t = \<lparr>li_baseURL = ''https://api.linkedin.com/v2'', li_authorization = ''Bearer t''\<rparr>"

definition li_authenticated :: LinkedInPlatform where
  "li_authenticated =
     \<lparr>li_config = oauth_config, li_client = Some li_axios_t, profileId = Some ''abc''\<rparr>"

definition engage_42 :: "EngagementAction \<Rightarrow> EngagementOptions" where
  "engage_42 a = \<lparr>postId = ''42'', action = a, commentText = None\<rparr>"

definition search_cats :: SearchOptions where
  "search_cats = \<lparr>query = ''cats'', search_limit = None, startTime = None, endTime = None\<rparr>"

definition default_feed :: FeedOptions where
  "default_feed = \<lparr>feed_limit = None, maxResults = None, sinceId = None, beforeId = None\<rparr>"

section \<open>Notions used in the statements\<close>

text \<open>The adapter object after a method has run.\<close>

definition state_after :: "(error_obj + 'a) \<times> 's \<times> string list \<Rightarrow> 's" where
  "state_after r = fst (snd r)"

text \<open>A method keeps a field (or any function of the object) whatever the object is.\<close>

definition keeps :: "('s \<Rightarrow> 'c) \<Rightarrow> ('s, 'a) act \<Rightarrow> bool" where
  "keeps f m = (\<forall>s. f (state_after (m s)) = f s)"

text \<open>
  The tweet's \<open>author_id\<close> matches no user of the response's includes, or the includes
  or their user list are absent.
\<close>

definition author_missing :: "TweetV2 \<Rightarrow> Includes option \<Rightarrow> bool" where
  "author_missing tweet includes =
     (case includes of
        None \<Rightarrow> True
      | Some inc \<Rightarrow>
          (case inc_users inc of
             None \<Rightarrow> True
           | Some users \<Rightarrow> list_all (\<lambda>u. Some (tu_id u) \<noteq> author_id tweet) users))"

text \<open>
  The placeholder author for a given \<open>author_id\<close>. An empty \<open>author_id\<close> is falsy in
  JavaScript and counts as absent.
\<close>

definition placeholder_author :: "string option \<Rightarrow> User" where
  "placeholder_author aid =
     \<lparr>user_id = (case aid of None \<Rightarrow> ''unknown'' | Some a \<Rightarrow> if a = [] then ''unknown'' else a),
      username = ''unknown'', displayName = ''Unknown User'',
      avatarUrl = None, bio = None, followersCount = None, followingCount = None,
      verified = None\<rparr>"


text \<open>
  A feed result is a list of posts holding one with the given id, the given content and
  the given platform tag.
\<close>

definition feed_has :: "Platform \<Rightarrow> string \<Rightarrow> string \<Rightarrow> error_obj + Post list \<Rightarrow> bool" where
  "feed_has pf i txt r =
     (case r of
        Inl _ \<Rightarrow> False
      | Inr posts \<Rightarrow> list_ex (\<lambda>p. post_id p = i \<and> content p = txt \<and> platform p = pf) posts)"

text \<open>The body that \<open>LinkedInPlatform.post\<close> sends for the text \<open>hello\<close> alone.\<close>

definition hello_share :: "string \<Rightarrow> ugc_post" where
  "hello_share pid =
     \<lparr>ugc_author = person_urn pid, ugc_lifecycleState = ''PUBLISHED'',
      ugc_shareCommentary_text = ''hello'', ugc_shareMediaCategory = ''NONE'',
      ugc_media = None, ugc_originalShare = None, ugc_visibility = ''PUBLIC''\<rparr>"

definition with_media :: "string \<Rightarrow> PostOptions \<Rightarrow> PostOptions" where
  "with_media u options = options\<lparr>opt_mediaUrls := Some [u]\<rparr>"

text \<open>
  A post result is a \<open>Post\<close> (not an error) with the given id, the given content and the
  given platform tag.
\<close>

definition post_has :: "Platform \<Rightarrow> string \<Rightarrow> string \<Rightarrow> error_obj + Post \<Rightarrow> bool" where
  "post_has pf i body r =
     (case r of
        Inl _ \<Rightarrow> False
      | Inr p \<Rightarrow> post_id p = i \<and> content p = body \<and> platform p = pf)"

text \<open>
  The four OAuth 1.0a credentials are all there: the condition of the first branch of
  \<open>TwitterPlatform.authenticate\<close>.
\<close>

definition oauth_present :: "PlatformConfig \<Rightarrow> bool" where
  "oauth_present cfg =
     (truthy_str (apiKey cfg) \<and> truthy_str (apiSecret cfg) \<and> accessToken cfg \<noteq> [] \<and>
      truthy_str (accessSecret cfg))"

section \<open>The error taxonomy of the specification\<close>

text \<open>
  The taxonomy is the specification's vocabulary. The code has no kind field: a raised
  \<open>PlatformError\<close> carries \<open>platform\<close>, \<open>statusCode\<close>, \<open>rateLimitReset\<close> and a
  message. \<open>kind_of_status\<close> follows the specification's words (401, 402, 403 and 429 name
  one kind each); \<open>taxonomy_kind\<close> reads the kind of a raised error off the status that
  \<open>handleError\<close> stamped on it. An error that went through the last branch of
  \<open>handleError\<close> is the specification's passthrough, \<open>Unknown\<close>.
\<close>

datatype error_kind =
  AuthenticationFailed | PermissionDenied | RateLimited | QuotaExhausted
  | UnsupportedOperation | ValidationFailed | Unknown

definition kind_of_status :: "int \<Rightarrow> error_kind" where
  "kind_of_status n =
     (if n = 401 then AuthenticationFailed
      else if n = 402 then QuotaExhausted
      else if n = 403 then PermissionDenied
      else if n = 429 then RateLimited
      else Unknown)"

definition taxonomy_kind :: "error_obj \<Rightarrow> error_kind" where
  "taxonomy_kind e =
     (case statusCode e of Some (JNum n) \<Rightarrow> kind_of_status n | _ \<Rightarrow> Unknown)"

text \<open>
  An error carries the HTTP status \<open>s\<close> when its \<open>code\<close> or its \<open>statusCode\<close>
  property is the number \<open>s\<close> and neither property holds another of the four statuses.
\<close>

definition carries_status :: "error_obj \<Rightarrow> int \<Rightarrow> bool" where
  "carries_status e s =
     (is_status e s \<and> list_all (\<lambda>t. t = s \<or> \<not> is_status e t) [401, 402, 403, 429])"

section \<open>Basic facts about the model\<close>

lemma bnd_ret: "bnd (ret x) f = f x"
  by (rule ext) (simp add: bnd_def ret_def split: prod.splits)

lemma bnd_throw: "bnd (throw e) f = throw e"
  by (rule ext) (simp add: bnd_def throw_def)

lemma bnd_gets: "bnd (gets g) f s = f (g s) s"
  by (simp add: bnd_def gets_def split: prod.splits)

lemma bnd_assign: "bnd (assign g) f s = f () (g s)"
  by (simp add: bnd_def assign_def split: prod.splits)

lemma bnd_request_Inl: "bnd (request n (Inl e)) f s = (Inl e, s, [n])"
  by (simp add: bnd_def request_def)

lemma bnd_request_Inr:
  "bnd (request n (Inr x)) f s = (case f x s of (r, s2, l2) \<Rightarrow> (r, s2, n # l2))"
  by (simp add: bnd_def request_def)

lemmas act_simps = bnd_ret bnd_throw bnd_gets bnd_assign bnd_request_Inl bnd_request_Inr

text \<open>
  An error made by \<open>createError\<close> without a status goes through the last branch of
  \<open>handleError\<close>: the message is kept and no status is set.
\<close>

lemma handleError_plain:
  "msg \<noteq> [] \<Longrightarrow>
   handleError p rt (createError q msg None None) = createError p msg None None"
  by (simp add: handleError_def createError_def is_status_def or_default_def)

lemma taxonomy_kind_plain: "taxonomy_kind (createError p msg None r) = Unknown"
  by (simp add: taxonomy_kind_def createError_def)

lemmas run_simps = bnd_def ret_def throw_def gets_def assign_def request_def try_catch_def
  tw_not_authenticated_def tw_no_write_access_def li_not_authenticated_def handleError_plain

lemmas example_simps = network_error_def linkedin_unreachable_def credits_depleted_def axios_unauthorized_def linkedin_expired_def ada_def hello_tweet_def orphan_tweet_def hello_page_def twitter_ok_def
  too_many_requests_def twitter_rate_limited_def ig_ada_def ig_hello_def instagram_ok_def
  li_ada_def li_hello_def linkedin_ok_def oauth_config_def oauth_client_def env_both_def forbidden_def
  twitter_read_only_def twitter_no_credits_def unauthorized_def
  env_linkedin_only_def world_of_def cross_post_def text_only_def tw_authenticated_def
  ig_axios_t_def ig_authenticated_def li_axios_t_def li_authenticated_def engage_42_def
  search_cats_def default_feed_def example_runtime_def instagram_expired_def bearer_config_def
  no_credentials_def

subsection \<open>What the nested calls do\<close>

text \<open>
  \<open>getMe\<close> has its own \<open>try\<close>/\<open>catch\<close>; a method that awaits it inside its own
  \<open>try\<close> hands the error that \<open>getMe\<close> threw to \<open>handleError\<close> a second time.
\<close>

lemma tw_getMe_run:
  "tw_getMe tv rt s =
     (case tw_client s of
        None \<Rightarrow> (Inl (createError TWITTER ''Not authenticated'' None None), s, [])
      | Some c \<Rightarrow>
          (case v2_me tv c of
             Inl e \<Rightarrow> (Inl (handleError TWITTER rt e), s, [''v2.me''])
           | Inr me \<Rightarrow> (Inr (mapTwitterUserToUser me), s, [''v2.me''])))"
  by (simp add: tw_getMe_def run_simps split: option.splits sum.splits)

lemma ig_getMe_run:
  "ig_getMe iv rt s =
     (case ig_client s of
        None \<Rightarrow> (Inl (createError INSTAGRAM ''Not authenticated'' None None), s, [])
      | Some c \<Rightarrow>
          (case ig_get_user iv c (userId (ig_config s)) of
             Inl e \<Rightarrow> (Inl (handleError INSTAGRAM rt e), s, [''GET /{userId}''])
           | Inr u \<Rightarrow> (Inr (mapInstagramUserToUser u), s, [''GET /{userId}''])))"
  by (simp add: ig_getMe_def run_simps split: option.splits sum.splits)

lemma li_getMe_run:
  "li_getMe lv rt s =
     (case li_client s of
        None \<Rightarrow> (Inl (createError LINKEDIN ''Not authenticated'' None None), s, [])
      | Some c \<Rightarrow>
          (case li_get_me lv c of
             Inl e \<Rightarrow> (Inl (handleError LINKEDIN rt e), s, [''GET /me''])
           | Inr profile \<Rightarrow> (Inr (mapLinkedInProfileToUser profile), s, [''GET /me''])))"
  by (simp add: li_getMe_def run_simps split: option.splits sum.splits)

lemma ig_authenticate_run:
  "ig_authenticate iv rt s =
     (if accessToken (ig_config s) = [] \<or> \<not> truthy_str (userId (ig_config s))
      then (Inl (createError INSTAGRAM ''Missing Instagram access token or user ID'' None None), s, [])
      else
        (let c = \<lparr>ig_baseURL = ''https://graph.instagram.com'',
                  ig_access_token = accessToken (ig_config s)\<rparr>
         in case ig_get_user iv c (userId (ig_config s)) of
              Inl e \<Rightarrow> (Inl (handleError INSTAGRAM rt (handleError INSTAGRAM rt e)),
                        s\<lparr>ig_client := Some c\<rparr>, [''GET /{userId}''])
            | Inr u \<Rightarrow> (Inr (), s\<lparr>ig_client := Some c\<rparr>, [''GET /{userId}''])))"
  by (simp add: ig_authenticate_def ig_getMe_def run_simps Let_def split: sum.splits)

lemma li_authenticate_run:
  "li_authenticate lv rt s =
     (if accessToken (li_config s) = []
      then (Inl (createError LINKEDIN ''Missing LinkedIn access token'' None None), s, [])
      else
        (let c = \<lparr>li_baseURL = ''https://api.linkedin.com/v2'',
                  li_authorization = ''Bearer '' @ accessToken (li_config s)\<rparr>
         in case li_get_me lv c of
              Inl e \<Rightarrow> (Inl (handleError LINKEDIN rt (handleError LINKEDIN rt e)),
                        s\<lparr>li_client := Some c\<rparr>, [''GET /me''])
            | Inr profile \<Rightarrow>
                (Inr (), s\<lparr>li_client := Some c, profileId := Some (lp_id profile)\<rparr>,
                 [''GET /me''])))"
  by (simp add: li_authenticate_def li_getMe_def run_simps Let_def mapLinkedInProfileToUser_def
      split: sum.splits)

lemma tw_authenticate_run:
  "tw_authenticate tv rt s =
     (let cfg = tw_config s in
      if truthy_str (apiKey cfg) \<and> truthy_str (apiSecret cfg) \<and>
         accessToken cfg \<noteq> [] \<and> truthy_str (accessSecret cfg)
      then
        (let c = UserContext (the (apiKey cfg)) (the (apiSecret cfg)) (accessToken cfg)
                   (the (accessSecret cfg));
             s' = s\<lparr>tw_client := Some c, readWriteClient := Some c\<rparr>
         in case v2_me tv c of
              Inl e \<Rightarrow> (Inl (handleError TWITTER rt (handleError TWITTER rt e)), s', [''v2.me''])
            | Inr me \<Rightarrow> (Inr (), s', [''v2.me'']))
      else if truthy_str (bearerToken cfg)
      then
        (let c = AppOnly (the (bearerToken cfg));
             s' = s\<lparr>tw_client := Some c\<rparr>
         in case v2_me tv c of
              Inl e \<Rightarrow> (Inl (handleError TWITTER rt (handleError TWITTER rt e)), s', [''v2.me''])
            | Inr me \<Rightarrow> (Inr (), s', [''v2.me'']))
      else (Inl (createError TWITTER ''Missing Twitter API credentials'' None None), s, []))"
  by (simp add: tw_authenticate_def tw_getMe_def run_simps Let_def split: sum.splits)

text \<open>
  Applied once to an error with status 429, the handler takes the vendor's reset time
  when it is there (and not 0), and the clock plus fifteen minutes otherwise.
\<close>

lemma handleError_rate_limited:
  "is_status e 429 \<Longrightarrow>
   rateLimitReset (handleError p rt e) =
     Some (case rateLimit_reset e of
             None \<Rightarrow> now rt + 900000
           | Some r \<Rightarrow> if r = 0 then now rt + 900000 else r * 1000)"
  by (simp add: handleError_def createError_def Let_def split: option.splits)

text \<open>
  Applied to the error it raised for a 429, the handler finds no \<open>rateLimit.reset\<close>
  (the reset time sits in \<open>rateLimitReset\<close>) and falls back to the clock.
\<close>

lemma handleError_rate_limited_twice:
  "is_status e 429 \<Longrightarrow>
   rateLimitReset (handleError p rt' (handleError p rt e)) = Some (now rt' + 900000)"
  by (simp add: handleError_def createError_def is_status_def Let_def)

subsection \<open>Frame rules\<close>

lemma keeps_ret: "keeps f (ret x)"
  by (simp add: keeps_def state_after_def ret_def)

lemma keeps_throw: "keeps f (throw e)"
  by (simp add: keeps_def state_after_def throw_def)

lemma keeps_gets: "keeps f (gets g)"
  by (simp add: keeps_def state_after_def gets_def)

lemma keeps_request: "keeps f (request n a)"
  by (simp add: keeps_def state_after_def request_def)

lemma keeps_assign: "(\<And>s. f (g s) = f s) \<Longrightarrow> keeps f (assign g)"
  by (simp add: keeps_def state_after_def assign_def)

lemma keeps_bnd:
  assumes m: "keeps f m" and k: "\<And>x. keeps f (k x)"
  shows "keeps f (bnd m k)"
  unfolding keeps_def
proof
  fix s
  obtain r s1 l1 where ms: "m s = (r, s1, l1)" by (cases "m s") auto
  from m ms have s1: "f s1 = f s"
    unfolding keeps_def state_after_def by (metis fst_conv snd_conv)
  show "f (state_after (bnd m k s)) = f s"
  proof (cases r)
    case (Inl e)
    with ms s1 show ?thesis by (simp add: bnd_def state_after_def)
  next
    case (Inr x)
    obtain r2 s2 l2 where ks: "k x s1 = (r2, s2, l2)" by (cases "k x s1") auto
    from k [of x] ks have "f s2 = f s1"
      unfolding keeps_def state_after_def by (metis fst_conv snd_conv)
    with Inr ms ks s1 show ?thesis by (simp add: bnd_def state_after_def)
  qed
qed

lemma keeps_try_catch:
  assumes m: "keeps f m"
  shows "keeps f (try_catch p rt m)"
  unfolding keeps_def
proof
  fix s
  obtain r s1 l1 where ms: "m s = (r, s1, l1)" by (cases "m s") auto
  from m ms have "f s1 = f s"
    unfolding keeps_def state_after_def by (metis fst_conv snd_conv)
  with ms show "f (state_after (try_catch p rt m s)) = f s"
    by (cases r) (simp_all add: try_catch_def state_after_def)
qed

lemma keeps_if: "keeps f a \<Longrightarrow> keeps f b \<Longrightarrow> keeps f (if c then a else b)"
  by simp

lemma keeps_option: "keeps f a \<Longrightarrow> (\<And>x. keeps f (b x)) \<Longrightarrow> keeps f (case_option a b c)"
  by (cases c) simp_all

lemma keeps_action:
  "keeps f a \<Longrightarrow> keeps f b \<Longrightarrow> keeps f c \<Longrightarrow> keeps f d \<Longrightarrow> keeps f e \<Longrightarrow>
   keeps f (case_EngagementAction a b c d e x)"
  by (cases x) simp_all

lemma keeps_let: "(\<And>x. keeps f (b x)) \<Longrightarrow> keeps f (Let a b)"
  by (simp add: Let_def)

lemmas keeps_intros = keeps_ret keeps_throw keeps_gets keeps_request keeps_bnd keeps_try_catch
  keeps_if keeps_option keeps_action keeps_let

lemma keeps_upload_all: "keeps f (upload_all v c urls)"
  by (induction urls) (auto intro!: keeps_intros)

lemma keeps_ig_getMe: "keeps ig_config (ig_getMe v rt)"
  unfolding ig_getMe_def by (intro keeps_intros)

lemma keeps_ig_authenticate: "keeps ig_config (ig_authenticate v rt)"
  unfolding ig_authenticate_def by (intro keeps_intros keeps_ig_getMe keeps_assign) simp

lemma keeps_ig_getFeed: "keeps ig_config (ig_getFeed v rt fo)"
  unfolding ig_getFeed_def by (intro keeps_intros keeps_ig_getMe)

lemma keeps_ig_post: "keeps ig_config (ig_post v rt po)"
  unfolding ig_post_def by (intro keeps_intros keeps_ig_getMe)

lemma keeps_ig_engage: "keeps ig_config (ig_engage v rt eo)"
  unfolding ig_engage_def by (intro keeps_intros)

lemma keeps_ig_search: "keeps ig_config (ig_search v rt so)"
  unfolding ig_search_def by (intro keeps_intros)

lemma keeps_li_getMe: "keeps li_config (li_getMe v rt)"
  unfolding li_getMe_def li_not_authenticated_def by (intro keeps_intros)

lemma keeps_li_authenticate: "keeps li_config (li_authenticate v rt)"
  unfolding li_authenticate_def by (intro keeps_intros keeps_li_getMe keeps_assign) simp_all

lemma keeps_li_getFeed: "keeps li_config (li_getFeed v rt fo)"
  unfolding li_getFeed_def li_not_authenticated_def by (intro keeps_intros keeps_li_getMe)

lemma keeps_li_post: "keeps li_config (li_post v rt po)"
  unfolding li_post_def li_not_authenticated_def by (intro keeps_intros keeps_li_getMe)

lemma keeps_li_engage: "keeps li_config (li_engage v rt eo)"
  unfolding li_engage_def li_comment_def li_not_authenticated_def by (intro keeps_intros)

lemma keeps_li_search: "keeps li_config (li_search v rt so)"
  unfolding li_search_def li_not_authenticated_def by (intro keeps_intros)

lemma keeps_tw_getMe: "keeps tw_config (tw_getMe v rt)"
  unfolding tw_getMe_def tw_not_authenticated_def by (intro keeps_intros)

lemma keeps_tw_authenticate: "keeps tw_config (tw_authenticate v rt)"
  unfolding tw_authenticate_def by (intro keeps_intros keeps_tw_getMe keeps_assign) simp_all

lemma keeps_tw_getFeed: "keeps tw_config (tw_getFeed v rt fo)"
  unfolding tw_getFeed_def tw_not_authenticated_def by (intro keeps_intros keeps_tw_getMe)

lemma keeps_tw_post: "keeps tw_config (tw_post v rt po)"
  unfolding tw_post_def tw_no_write_access_def by (intro keeps_intros keeps_upload_all)

lemma keeps_tw_engage: "keeps tw_config (tw_engage v rt eo)"
  unfolding tw_engage_def tw_no_write_access_def by (intro keeps_intros keeps_tw_getMe)

lemma keeps_tw_search: "keeps tw_config (tw_search v rt so)"
  unfolding tw_search_def tw_not_authenticated_def by (intro keeps_intros)

lemma keeps_tw_getFollowingFeed: "keeps tw_config (tw_getFollowingFeed v rt n)"
  unfolding tw_getFollowingFeed_def tw_not_authenticated_def by (intro keeps_intros)

lemma keeps_tw_getMyPosts: "keeps tw_config (tw_getMyPosts v rt n)"
  unfolding tw_getMyPosts_def tw_not_authenticated_def by (intro keeps_intros keeps_tw_getMe)

subsection \<open>The mapping of tweets and the loops of the dispatcher\<close>

lemma find_author_missing:
  "list_all (\<lambda>u. Some (tu_id u) \<noteq> author_id tweet) users \<Longrightarrow> find_author users tweet = None"
  by (simp add: find_author_def find_None_iff list_all_iff)

lemma tweet_author_missing:
  "author_missing tweet includes \<Longrightarrow>
   tweet_author tweet includes = placeholder_author (author_id tweet)"
  by (auto simp add: author_missing_def tweet_author_def unknown_author_def placeholder_author_def
      or_default_def find_author_missing split: option.splits)

lemma feed_has_map:
  "x \<in> set xs \<Longrightarrow> post_id (f x) = i \<Longrightarrow> content (f x) = txt \<Longrightarrow> platform (f x) = pf \<Longrightarrow>
   feed_has pf i txt (Inr (map f xs))"
  by (auto simp add: feed_has_def list_ex_iff)




section \<open>Error classification\<close>

text \<open>
  What the shared handler does with an error whose \<open>code\<close> or \<open>statusCode\<close> is one
  of the statuses 401, 402, 403, 429 (and the only one of the four): for each of the three
  platforms it raises an error stamped with that status and the adapter's platform, of
  the kind the specification names for the status. A 402 whose payload has the title
  CreditsDepleted gets the credits message, any other 402 the generic payment message;
  neither is passed through as Unknown.
\<close>

lemma handleError_classifies:
  assumes "carries_status e s" and "s \<in> {401, 402, 403, 429}"
  shows "taxonomy_kind (handleError p rt e) = kind_of_status s
       \<and> kind_of_status s \<noteq> Unknown
       \<and> statusCode (handleError p rt e) = Some (JNum s)
       \<and> err_platform (handleError p rt e) = Some p
       \<and> (s = 401 \<longrightarrow> message (handleError p rt e) = Some (authentication_message p))
       \<and> (s = 402 \<and> data_title e = Some ''CreditsDepleted''
            \<longrightarrow> message (handleError p rt e) = Some credits_message)
       \<and> (s = 402 \<and> data_title e \<noteq> Some ''CreditsDepleted''
            \<longrightarrow> message (handleError p rt e) = Some (payment_message p))"
  using assms
  by (auto simp: carries_status_def handleError_def createError_def taxonomy_kind_def
      kind_of_status_def Let_def)

lemma handleError_classifies_credits:
  "carries_status credits_depleted 402
 \<and> taxonomy_kind (handleError TWITTER example_runtime credits_depleted) = QuotaExhausted
 \<and> message (handleError TWITTER example_runtime credits_depleted) = Some credits_message"
proof -
  have c: "carries_status credits_depleted 402"
    by (simp add: carries_status_def is_status_def credits_depleted_def)
  have m: "(402::int) \<in> {401, 402, 403, 429}" by simp
  show ?thesis
    using c handleError_classifies [OF c m, of TWITTER example_runtime]
    by (simp add: kind_of_status_def credits_depleted_def)
qed

text \<open>
  C1 at two concrete inputs. The LinkedIn adapter calls the vendor through axios. When
  the vendor answers the profile request with HTTP 401, the error that axios throws holds
  the status in \<open>response.status\<close>; its \<open>code\<close> is a string and it has no
  \<open>statusCode\<close>. No branch of the handler matches: the error raised by \<open>getMe\<close> and
  by \<open>authenticate\<close> is the passthrough, with the library's message and the library's
  string code, not the authentication failure that the status 401 is mapped to.
  On the Twitter adapter, a 402 with the title CreditsDepleted in answer to the profile
  request gets the credits message from \<open>getMe\<close>, but \<open>authenticate\<close> hands the error
  that \<open>getMe\<close> threw to the handler again, and raises the generic payment message.
\<close>

theorem vendor_errors_misclassified:
  "response_status axios_unauthorized = Some 401
 \<and> handleError LINKEDIN example_runtime axios_unauthorized =
     createError LINKEDIN ''Request failed with status code 401''
       (Some (JStr ''ERR_BAD_REQUEST'')) None
 \<and> fst (li_getMe linkedin_expired example_runtime li_authenticated) =
     Inl (createError LINKEDIN ''Request failed with status code 401''
            (Some (JStr ''ERR_BAD_REQUEST'')) None)
 \<and> fst (li_authenticate linkedin_expired example_runtime (new_LinkedInPlatform oauth_config)) =
     Inl (createError LINKEDIN ''Request failed with status code 401''
            (Some (JStr ''ERR_BAD_REQUEST'')) None)
 \<and> taxonomy_kind (createError LINKEDIN ''Request failed with status code 401''
       (Some (JStr ''ERR_BAD_REQUEST'')) None) = Unknown
 \<and> kind_of_status 401 = AuthenticationFailed
 \<and> fst (tw_getMe twitter_no_credits example_runtime tw_authenticated) =
     Inl (createError TWITTER credits_message (Some (JNum 402)) None)
 \<and> fst (tw_authenticate twitter_no_credits example_runtime (new_TwitterPlatform oauth_config)) =
     Inl (createError TWITTER (payment_message TWITTER) (Some (JNum 402)) None)"
proof -
  have h: "handleError LINKEDIN example_runtime axios_unauthorized =
      createError LINKEDIN ''Request failed with status code 401''
        (Some (JStr ''ERR_BAD_REQUEST'')) None"
    by (simp add: handleError_def is_status_def axios_unauthorized_def or_default_def)
  have h2: "handleError LINKEDIN example_runtime
        (createError LINKEDIN ''Request failed with status code 401''
           (Some (JStr ''ERR_BAD_REQUEST'')) None) =
      createError LINKEDIN ''Request failed with status code 401''
        (Some (JStr ''ERR_BAD_REQUEST'')) None"
    by (simp add: handleError_def is_status_def createError_def or_default_def)
  have g: "fst (li_getMe linkedin_expired example_runtime li_authenticated) =
      Inl (createError LINKEDIN ''Request failed with status code 401''
             (Some (JStr ''ERR_BAD_REQUEST'')) None)"
    by (simp add: li_getMe_run li_authenticated_def linkedin_expired_def h)
  have a: "fst (li_authenticate linkedin_expired example_runtime
        (new_LinkedInPlatform oauth_config)) =
      Inl (createError LINKEDIN ''Request failed with status code 401''
             (Some (JStr ''ERR_BAD_REQUEST'')) None)"
    by (simp add: li_authenticate_run new_LinkedInPlatform_def oauth_config_def
        linkedin_expired_def Let_def h h2)
  have k: "taxonomy_kind (createError LINKEDIN ''Request failed with status code 401''
        (Some (JStr ''ERR_BAD_REQUEST'')) None) = Unknown"
    by (simp add: taxonomy_kind_def createError_def)
  have r: "response_status axios_unauthorized = Some 401"
    by (simp add: axios_unauthorized_def)
  have c1: "handleError TWITTER example_runtime credits_depleted =
      createError TWITTER credits_message (Some (JNum 402)) None"
    by (simp add: handleError_def is_status_def credits_depleted_def)
  have c2: "handleError TWITTER example_runtime
        (createError TWITTER credits_message (Some (JNum 402)) None) =
      createError TWITTER (payment_message TWITTER) (Some (JNum 402)) None"
    by (simp add: handleError_def is_status_def createError_def)
  have t1: "fst (tw_getMe twitter_no_credits example_runtime tw_authenticated) =
      Inl (createError TWITTER credits_message (Some (JNum 402)) None)"
    by (simp add: tw_getMe_run tw_authenticated_def twitter_no_credits_def c1)
  have t2: "fst (tw_authenticate twitter_no_credits example_runtime
        (new_TwitterPlatform oauth_config)) =
      Inl (createError TWITTER (payment_message TWITTER) (Some (JNum 402)) None)"
    by (simp add: tw_authenticate_run new_TwitterPlatform_def oauth_config_def
        twitter_no_credits_def Let_def c1 c2)
  from r h g a k t1 t2 show ?thesis by (simp add: kind_of_status_def)
qed

section \<open>Unsupported actions\<close>




section \<open>Calls before authentication\<close>




section \<open>Validation before the network\<close>

text \<open>
  C6, as the code has it. On an authenticated Instagram or LinkedIn adapter a comment or
  reply without comment text, and on an authenticated Instagram adapter a post without a
  media path or URL, fail before any request to the vendor, with a \<open>PlatformError\<close> that
  names the missing input and carries no status code.
\<close>

theorem validation_before_network:
  "(ig_client s = Some c \<and> action eo \<in> {COMMENT, REPLY} \<and> \<not> truthy_str (commentText eo) \<longrightarrow>
      ig_engage iv rt eo s =
        (Inl (createError INSTAGRAM ''Comment text is required'' None None), s, []))
 \<and> (li_client t = Some d \<and> truthy_str (profileId t) \<and>
      action eo \<in> {COMMENT, REPLY} \<and> \<not> truthy_str (commentText eo) \<longrightarrow>
      li_engage lv rt eo t =
        (Inl (createError LINKEDIN ''Comment text is required'' None None), t, []))
 \<and> (ig_client s = Some c \<and> \<not> truthy_str (mediaPath po) \<and>
      \<not> truthy_str (first_elem (opt_mediaUrls po)) \<longrightarrow>
      ig_post iv rt po s =
        (Inl (createError INSTAGRAM
                ''Instagram requires an image or video URL to post'' None None), s, []))"
  by (auto simp add: ig_engage_def li_engage_def li_comment_def ig_post_def run_simps)

theorem validation_before_network_witness:
  "ig_client ig_authenticated = Some ig_axios_t
 \<and> li_client li_authenticated = Some li_axios_t
 \<and> truthy_str (profileId li_authenticated)
 \<and> action (engage_42 COMMENT) \<in> {COMMENT, REPLY}
 \<and> \<not> truthy_str (commentText (engage_42 COMMENT))
 \<and> \<not> truthy_str (mediaPath (text_only ''hello''))
 \<and> \<not> truthy_str (first_elem (opt_mediaUrls (text_only ''hello'')))
 \<and> ig_engage instagram_ok example_runtime (engage_42 COMMENT) ig_authenticated =
      (Inl (createError INSTAGRAM ''Comment text is required'' None None), ig_authenticated, [])
 \<and> li_engage linkedin_ok example_runtime (engage_42 COMMENT) li_authenticated =
      (Inl (createError LINKEDIN ''Comment text is required'' None None), li_authenticated, [])
 \<and> ig_post instagram_ok example_runtime (text_only ''hello'') ig_authenticated =
      (Inl (createError INSTAGRAM
              ''Instagram requires an image or video URL to post'' None None),
       ig_authenticated, [])"
  using validation_before_network [where s = ig_authenticated and c = ig_axios_t
      and eo = "engage_42 COMMENT" and t = li_authenticated and d = li_axios_t
      and po = "text_only ''hello''" and iv = instagram_ok and lv = linkedin_ok
      and rt = example_runtime]
  by (simp add: example_simps first_elem_def)

text \<open>
  The claim as stated fails twice. The error for a post without media has no status, so
  it is not of the kind ValidationFailed. And on the Twitter adapter a reply without
  comment text is rejected only after the request for the own profile has gone out.
\<close>

theorem validation_counterexample:
  "fst (ig_post instagram_ok example_runtime (text_only ''hello'') ig_authenticated) =
     Inl (createError INSTAGRAM ''Instagram requires an image or video URL to post'' None None)
 \<and> taxonomy_kind (createError INSTAGRAM
       ''Instagram requires an image or video URL to post'' None None) \<noteq> ValidationFailed
 \<and> tw_engage twitter_ok example_runtime (engage_42 REPLY) tw_authenticated =
     (Inl (createError TWITTER ''Comment text is required for replies'' None None),
      tw_authenticated, [''v2.me''])"
  by (simp add: ig_post_def tw_engage_def tw_getMe_def run_simps example_simps
      taxonomy_kind_plain first_elem_def)

section \<open>Rate limiting\<close>

text \<open>
  C7 at a concrete input. The vendor answers the request for the own profile with status
  429 and the reset time 1700000000. Called directly on an authenticated adapter,
  \<open>getMe\<close> raises an error whose \<open>rateLimitReset\<close> is that time. \<open>authenticate\<close> and
  \<open>getFeed\<close> await \<open>getMe\<close> inside their own \<open>try\<close>: the error is handled a second
  time, and the error they raise carries the clock plus fifteen minutes instead.
\<close>

theorem rate_limit_reset_lost_on_rethrow:
  "fst (tw_getMe twitter_rate_limited example_runtime tw_authenticated) =
     Inl (createError TWITTER ''Rate limit exceeded for twitter. Try again after 12:00:00 AM''
            (Some (JNum 429)) (Some 1700000000000))
 \<and> fst (tw_authenticate twitter_rate_limited example_runtime (new_TwitterPlatform oauth_config)) =
     Inl (createError TWITTER ''Rate limit exceeded for twitter. Try again after 12:00:00 AM''
            (Some (JNum 429)) (Some (now example_runtime + 15 * 60 * 1000)))
 \<and> fst (tw_getFeed twitter_rate_limited example_runtime default_feed tw_authenticated) =
     Inl (createError TWITTER ''Rate limit exceeded for twitter. Try again after 12:00:00 AM''
            (Some (JNum 429)) (Some (now example_runtime + 15 * 60 * 1000)))"
  by (simp add: tw_getMe_def tw_authenticate_def tw_getFeed_def new_TwitterPlatform_def
      run_simps example_simps handleError_def is_status_def createError_def)

section \<open>Idempotence of authentication\<close>

text \<open>
  C8. For each adapter, when \<open>authenticate()\<close> has succeeded, the credentials are
  unchanged (the configuration is never assigned) and the vendor answers the profile
  request as it did the first time, a second \<open>authenticate()\<close>, at whatever time,
  succeeds too, issues the same request and leaves the adapter exactly as the first call
  left it.
\<close>

theorem authenticate_idempotent:
  "(ig_authenticate iv rt si = (Inr (), si', li) \<and> ig_get_user iv' = ig_get_user iv \<longrightarrow>
      ig_authenticate iv' rt' si' = (Inr (), si', li))
 \<and> (li_authenticate lv rt sl = (Inr (), sl', ll) \<and> li_get_me lv' = li_get_me lv \<longrightarrow>
      li_authenticate lv' rt' sl' = (Inr (), sl', ll))
 \<and> (tw_authenticate tv rt st = (Inr (), st', lt) \<and> v2_me tv' = v2_me tv \<longrightarrow>
      tw_authenticate tv' rt' st' = (Inr (), st', lt))"
proof -
  have ig: "ig_authenticate iv rt si = (Inr (), si', li) \<and> ig_get_user iv' = ig_get_user iv \<longrightarrow>
      ig_authenticate iv' rt' si' = (Inr (), si', li)"
    by (auto simp add: ig_authenticate_run Let_def split: if_splits sum.splits)
  have li: "li_authenticate lv rt sl = (Inr (), sl', ll) \<and> li_get_me lv' = li_get_me lv \<longrightarrow>
      li_authenticate lv' rt' sl' = (Inr (), sl', ll)"
    by (auto simp add: li_authenticate_run Let_def split: if_splits sum.splits)
  have tw: "tw_authenticate tv rt st = (Inr (), st', lt) \<and> v2_me tv' = v2_me tv \<longrightarrow>
      tw_authenticate tv' rt' st' = (Inr (), st', lt)"
    by (auto simp add: tw_authenticate_run Let_def split: if_splits sum.splits)
  from ig li tw show ?thesis by (intro conjI)
qed

theorem authenticate_idempotent_witness:
  "ig_authenticate instagram_ok example_runtime (new_InstagramPlatform oauth_config) =
     (Inr (), ig_authenticated, [''GET /{userId}''])
 \<and> ig_authenticate instagram_ok example_runtime ig_authenticated =
     (Inr (), ig_authenticated, [''GET /{userId}''])
 \<and> li_authenticate linkedin_ok example_runtime (new_LinkedInPlatform oauth_config) =
     (Inr (), li_authenticated, [''GET /me''])
 \<and> li_authenticate linkedin_ok example_runtime li_authenticated =
     (Inr (), li_authenticated, [''GET /me''])
 \<and> tw_authenticate twitter_ok example_runtime (new_TwitterPlatform oauth_config) =
     (Inr (), tw_authenticated, [''v2.me''])
 \<and> tw_authenticate twitter_ok example_runtime tw_authenticated =
     (Inr (), tw_authenticated, [''v2.me''])"
proof -
  have ig: "ig_authenticate instagram_ok example_runtime (new_InstagramPlatform oauth_config) =
     (Inr (), ig_authenticated, [''GET /{userId}''])"
    by (simp add: ig_authenticate_run new_InstagramPlatform_def example_simps Let_def)
  have li: "li_authenticate linkedin_ok example_runtime (new_LinkedInPlatform oauth_config) =
     (Inr (), li_authenticated, [''GET /me''])"
    by (simp add: li_authenticate_run new_LinkedInPlatform_def example_simps Let_def)
  have tw: "tw_authenticate twitter_ok example_runtime (new_TwitterPlatform oauth_config) =
     (Inr (), tw_authenticated, [''v2.me''])"
    by (simp add: tw_authenticate_run new_TwitterPlatform_def example_simps Let_def)
  from ig li tw
    authenticate_idempotent [where iv = instagram_ok and lv = linkedin_ok and tv = twitter_ok
      and iv' = instagram_ok and lv' = linkedin_ok and tv' = twitter_ok
      and rt = example_runtime and rt' = example_runtime
      and si = "new_InstagramPlatform oauth_config"
      and si' = ig_authenticated and li = "[''GET /{userId}'']"
      and sl = "new_LinkedInPlatform oauth_config" and sl' = li_authenticated
      and ll = "[''GET /me'']" and st = "new_TwitterPlatform oauth_config"
      and st' = tw_authenticated and lt = "[''v2.me'']"]
  show ?thesis by simp
qed

section \<open>The configuration is never assigned\<close>

text \<open>
  C9. Whatever the adapter, the vendor's answers and the arguments, no operation changes
  the configuration the adapter was constructed with: it is the same after
  \<open>authenticate\<close>, \<open>getMe\<close>, \<open>getFeed\<close>, \<open>post\<close>, \<open>engage\<close> and \<open>search\<close>
  (and after the two extra read paths of the Twitter adapter), whether the operation
  returns or throws. \<open>authenticate()\<close> run with the credentials present stores a client
  built from that configuration, whatever client was stored before and whatever the
  vendor answers to the verification request that follows, so also when
  \<open>authenticate()\<close> throws: on Instagram from the access token (the user id must be
  there too), on LinkedIn from the access token, on Twitter the user-context client from
  the four OAuth credentials, which is the read-write client as well, and without them
  the app-only client from the bearer token, the read-write client staying as it was.
  With the credentials missing \<open>authenticate()\<close> leaves the adapter as it was.
\<close>

theorem config_never_mutated:
  "ig_config (state_after (ig_authenticate iv rt si)) = ig_config si
 \<and> ig_config (state_after (ig_getMe iv rt si)) = ig_config si
 \<and> ig_config (state_after (ig_getFeed iv rt fo si)) = ig_config si
 \<and> ig_config (state_after (ig_post iv rt po si)) = ig_config si
 \<and> ig_config (state_after (ig_engage iv rt eo si)) = ig_config si
 \<and> ig_config (state_after (ig_search iv rt so si)) = ig_config si
 \<and> li_config (state_after (li_authenticate lv rt sl)) = li_config sl
 \<and> li_config (state_after (li_getMe lv rt sl)) = li_config sl
 \<and> li_config (state_after (li_getFeed lv rt fo sl)) = li_config sl
 \<and> li_config (state_after (li_post lv rt po sl)) = li_config sl
 \<and> li_config (state_after (li_engage lv rt eo sl)) = li_config sl
 \<and> li_config (state_after (li_search lv rt so sl)) = li_config sl
 \<and> tw_config (state_after (tw_authenticate tv rt st)) = tw_config st
 \<and> tw_config (state_after (tw_getMe tv rt st)) = tw_config st
 \<and> tw_config (state_after (tw_getFeed tv rt fo st)) = tw_config st
 \<and> tw_config (state_after (tw_post tv rt po st)) = tw_config st
 \<and> tw_config (state_after (tw_engage tv rt eo st)) = tw_config st
 \<and> tw_config (state_after (tw_search tv rt so st)) = tw_config st
 \<and> tw_config (state_after (tw_getFollowingFeed tv rt n st)) = tw_config st
 \<and> tw_config (state_after (tw_getMyPosts tv rt n st)) = tw_config st
 \<and> (accessToken (ig_config si) \<noteq> [] \<and> truthy_str (userId (ig_config si)) \<longrightarrow>
      ig_client (state_after (ig_authenticate iv rt si)) =
        Some \<lparr>ig_baseURL = ''https://graph.instagram.com'',
              ig_access_token = accessToken (ig_config si)\<rparr>)
 \<and> (accessToken (ig_config si) = [] \<or> \<not> truthy_str (userId (ig_config si)) \<longrightarrow>
      state_after (ig_authenticate iv rt si) = si)
 \<and> (accessToken (li_config sl) \<noteq> [] \<longrightarrow>
      li_client (state_after (li_authenticate lv rt sl)) =
        Some \<lparr>li_baseURL = ''https://api.linkedin.com/v2'',
              li_authorization = ''Bearer '' @ accessToken (li_config sl)\<rparr>)
 \<and> (accessToken (li_config sl) = [] \<longrightarrow> state_after (li_authenticate lv rt sl) = sl)
 \<and> (oauth_present (tw_config st) \<longrightarrow>
      tw_client (state_after (tw_authenticate tv rt st)) =
        Some (UserContext (the (apiKey (tw_config st))) (the (apiSecret (tw_config st)))
                (accessToken (tw_config st)) (the (accessSecret (tw_config st))))
    \<and> readWriteClient (state_after (tw_authenticate tv rt st)) =
        tw_client (state_after (tw_authenticate tv rt st)))
 \<and> (\<not> oauth_present (tw_config st) \<and> truthy_str (bearerToken (tw_config st)) \<longrightarrow>
      tw_client (state_after (tw_authenticate tv rt st)) =
        Some (AppOnly (the (bearerToken (tw_config st))))
    \<and> readWriteClient (state_after (tw_authenticate tv rt st)) = readWriteClient st)
 \<and> (\<not> oauth_present (tw_config st) \<and> \<not> truthy_str (bearerToken (tw_config st)) \<longrightarrow>
      state_after (tw_authenticate tv rt st) = st)"
proof -
  have ig: "accessToken (ig_config si) \<noteq> [] \<and> truthy_str (userId (ig_config si)) \<longrightarrow>
      ig_client (state_after (ig_authenticate iv rt si)) =
        Some \<lparr>ig_baseURL = ''https://graph.instagram.com'',
              ig_access_token = accessToken (ig_config si)\<rparr>"
    by (simp add: ig_authenticate_run state_after_def Let_def split: sum.splits)
  have ig0: "accessToken (ig_config si) = [] \<or> \<not> truthy_str (userId (ig_config si)) \<longrightarrow>
      state_after (ig_authenticate iv rt si) = si"
    by (simp add: ig_authenticate_run state_after_def)
  have li: "accessToken (li_config sl) \<noteq> [] \<longrightarrow>
      li_client (state_after (li_authenticate lv rt sl)) =
        Some \<lparr>li_baseURL = ''https://api.linkedin.com/v2'',
              li_authorization = ''Bearer '' @ accessToken (li_config sl)\<rparr>"
    by (simp add: li_authenticate_run state_after_def Let_def split: sum.splits)
  have li0: "accessToken (li_config sl) = [] \<longrightarrow> state_after (li_authenticate lv rt sl) = sl"
    by (simp add: li_authenticate_run state_after_def)
  have tw: "oauth_present (tw_config st) \<longrightarrow>
      tw_client (state_after (tw_authenticate tv rt st)) =
        Some (UserContext (the (apiKey (tw_config st))) (the (apiSecret (tw_config st)))
                (accessToken (tw_config st)) (the (accessSecret (tw_config st))))
    \<and> readWriteClient (state_after (tw_authenticate tv rt st)) =
        tw_client (state_after (tw_authenticate tv rt st))"
    by (simp add: tw_authenticate_run oauth_present_def state_after_def Let_def split: sum.splits)
  have twb: "\<not> oauth_present (tw_config st) \<and> truthy_str (bearerToken (tw_config st)) \<longrightarrow>
      tw_client (state_after (tw_authenticate tv rt st)) =
        Some (AppOnly (the (bearerToken (tw_config st))))
    \<and> readWriteClient (state_after (tw_authenticate tv rt st)) = readWriteClient st"
    by (simp add: tw_authenticate_run oauth_present_def state_after_def Let_def split: sum.splits)
  have tw0: "\<not> oauth_present (tw_config st) \<and> \<not> truthy_str (bearerToken (tw_config st)) \<longrightarrow>
      state_after (tw_authenticate tv rt st) = st"
    by (simp add: tw_authenticate_run oauth_present_def state_after_def Let_def)
  note frame =
    keeps_ig_authenticate keeps_ig_getMe keeps_ig_getFeed keeps_ig_post keeps_ig_engage
    keeps_ig_search keeps_li_authenticate keeps_li_getMe keeps_li_getFeed keeps_li_post
    keeps_li_engage keeps_li_search keeps_tw_authenticate keeps_tw_getMe keeps_tw_getFeed
    keeps_tw_post keeps_tw_engage keeps_tw_search keeps_tw_getFollowingFeed
    keeps_tw_getMyPosts
  have fr: "ig_config (state_after (ig_authenticate iv rt si)) = ig_config si"
    "ig_config (state_after (ig_getMe iv rt si)) = ig_config si"
    "ig_config (state_after (ig_getFeed iv rt fo si)) = ig_config si"
    "ig_config (state_after (ig_post iv rt po si)) = ig_config si"
    "ig_config (state_after (ig_engage iv rt eo si)) = ig_config si"
    "ig_config (state_after (ig_search iv rt so si)) = ig_config si"
    "li_config (state_after (li_authenticate lv rt sl)) = li_config sl"
    "li_config (state_after (li_getMe lv rt sl)) = li_config sl"
    "li_config (state_after (li_getFeed lv rt fo sl)) = li_config sl"
    "li_config (state_after (li_post lv rt po sl)) = li_config sl"
    "li_config (state_after (li_engage lv rt eo sl)) = li_config sl"
    "li_config (state_after (li_search lv rt so sl)) = li_config sl"
    "tw_config (state_after (tw_authenticate tv rt st)) = tw_config st"
    "tw_config (state_after (tw_getMe tv rt st)) = tw_config st"
    "tw_config (state_after (tw_getFeed tv rt fo st)) = tw_config st"
    "tw_config (state_after (tw_post tv rt po st)) = tw_config st"
    "tw_config (state_after (tw_engage tv rt eo st)) = tw_config st"
    "tw_config (state_after (tw_search tv rt so st)) = tw_config st"
    "tw_config (state_after (tw_getFollowingFeed tv rt n st)) = tw_config st"
    "tw_config (state_after (tw_getMyPosts tv rt n st)) = tw_config st"
    by (simp_all add: frame [unfolded keeps_def, rule_format])
  from fr ig ig0 li li0 tw twb tw0 show ?thesis by blast
qed

theorem config_never_mutated_witness:
  "ig_config (state_after (ig_authenticate instagram_expired example_runtime ig_authenticated)) =
     oauth_config
 \<and> li_config (state_after (li_post linkedin_ok example_runtime (text_only ''hello'')
       li_authenticated)) = oauth_config
 \<and> tw_config (state_after (tw_authenticate twitter_rate_limited example_runtime
       tw_authenticated)) = oauth_config
 \<and> ig_client (state_after (ig_authenticate instagram_expired example_runtime
       (new_InstagramPlatform oauth_config))) = Some ig_axios_t
 \<and> ig_client (state_after (ig_authenticate instagram_ok example_runtime ig_authenticated)) =
     Some ig_axios_t
 \<and> state_after (ig_authenticate instagram_ok example_runtime
       (new_InstagramPlatform no_credentials)) = new_InstagramPlatform no_credentials
 \<and> li_client (state_after (li_authenticate linkedin_unreachable example_runtime
       (new_LinkedInPlatform oauth_config))) = Some li_axios_t
 \<and> li_client (state_after (li_authenticate linkedin_expired example_runtime li_authenticated)) =
     Some li_axios_t
 \<and> state_after (li_authenticate linkedin_ok example_runtime
       (new_LinkedInPlatform no_credentials)) = new_LinkedInPlatform no_credentials
 \<and> tw_client (state_after (tw_authenticate twitter_rate_limited example_runtime
       (new_TwitterPlatform oauth_config))) = Some oauth_client
 \<and> readWriteClient (state_after (tw_authenticate twitter_rate_limited example_runtime
       (new_TwitterPlatform oauth_config))) = Some oauth_client
 \<and> tw_client (state_after (tw_authenticate twitter_ok example_runtime tw_authenticated)) =
     Some oauth_client
 \<and> tw_client (state_after (tw_authenticate twitter_ok example_runtime
       (new_TwitterPlatform bearer_config))) = Some (AppOnly ''b'')
 \<and> readWriteClient (state_after (tw_authenticate twitter_ok example_runtime
       (new_TwitterPlatform bearer_config))) = None
 \<and> state_after (tw_authenticate twitter_ok example_runtime
       (new_TwitterPlatform no_credentials)) = new_TwitterPlatform no_credentials"
proof -
  note a = config_never_mutated [where iv = instagram_expired and lv = linkedin_ok
      and tv = twitter_rate_limited and rt = example_runtime and si = ig_authenticated
      and sl = li_authenticated and st = tw_authenticated and po = "text_only ''hello''"]
  note b = config_never_mutated [where iv = instagram_expired and lv = linkedin_unreachable
      and tv = twitter_rate_limited and rt = example_runtime
      and si = "new_InstagramPlatform oauth_config"
      and sl = "new_LinkedInPlatform oauth_config"
      and st = "new_TwitterPlatform oauth_config"]
  note c = config_never_mutated [where iv = instagram_ok and lv = linkedin_expired
      and tv = twitter_ok and rt = example_runtime and si = ig_authenticated
      and sl = li_authenticated and st = tw_authenticated]
  note d = config_never_mutated [where iv = instagram_ok and lv = linkedin_ok
      and tv = twitter_ok and rt = example_runtime
      and si = "new_InstagramPlatform no_credentials"
      and sl = "new_LinkedInPlatform no_credentials"
      and st = "new_TwitterPlatform no_credentials"]
  note e = config_never_mutated [where tv = twitter_ok and rt = example_runtime
      and st = "new_TwitterPlatform bearer_config"]
  from a b c d e show ?thesis
    by (simp add: example_simps oauth_present_def new_InstagramPlatform_def
        new_LinkedInPlatform_def new_TwitterPlatform_def)
qed

section \<open>Tweets whose author is not in the response\<close>

text \<open>
  C10. A tweet whose \<open>author_id\<close> matches no user of the response's includes (or whose
  response has no includes, or no user list) is still mapped to a \<open>Post\<close>: its author
  is the placeholder with username "unknown", display name "Unknown User" and, as id, the
  tweet's \<open>author_id\<close>, or "unknown" when that is absent (or empty). The feed, own-posts
  and search paths of the Twitter adapter map every tweet of a page that way and return
  one \<open>Post\<close> per tweet whenever the vendor answers their requests.
\<close>

theorem unknown_author_fallback:
  "(author_missing tweet incs \<longrightarrow>
      author (mapTwitterTweetToPost rt tweet incs) = placeholder_author (author_id tweet))
 \<and> (tw_client s = Some c \<and> v2_me tv c = Inr me \<and>
      v2_homeTimeline tv c (or_num (feed_limit fo) 20) False = Inr page \<longrightarrow>
      tw_getFeed tv rt fo s =
        (Inr (map (\<lambda>t. mapTwitterTweetToPost rt t (page_includes page)) (or_empty (page_data page))),
         s, [''v2.me'', ''v2.homeTimeline'']))
 \<and> (tw_client s = Some c \<and> v2_me tv c = Inr me \<and>
      v2_userTimeline tv c (tu_id me) (min (max n 5) 100) = Inr page \<longrightarrow>
      tw_getMyPosts tv rt n s =
        (Inr (map (\<lambda>t. mapTwitterTweetToPost rt t (page_includes page)) (or_empty (page_data page))),
         s, [''v2.me'', ''v2.userTimeline'']))
 \<and> (tw_client s = Some c \<and>
      v2_search tv c (query so) (or_num (search_limit so) 20) (startTime so) (endTime so) =
        Inr page \<longrightarrow>
      tw_search tv rt so s =
        (Inr (map (\<lambda>t. mapTwitterTweetToPost rt t (page_includes page)) (or_empty (page_data page))),
         s, [''v2.search'']))"
proof -
  have a: "author_missing tweet incs \<longrightarrow>
      author (mapTwitterTweetToPost rt tweet incs) = placeholder_author (author_id tweet)"
    by (simp add: mapTwitterTweetToPost_def Let_def tweet_author_missing)
  have f: "tw_client s = Some c \<and> v2_me tv c = Inr me \<and>
      v2_homeTimeline tv c (or_num (feed_limit fo) 20) False = Inr page \<longrightarrow>
      tw_getFeed tv rt fo s =
        (Inr (map (\<lambda>t. mapTwitterTweetToPost rt t (page_includes page)) (or_empty (page_data page))),
         s, [''v2.me'', ''v2.homeTimeline''])"
    by (simp add: tw_getFeed_def tw_getMe_run map_page_def run_simps)
  have m: "tw_client s = Some c \<and> v2_me tv c = Inr me \<and>
      v2_userTimeline tv c (tu_id me) (min (max n 5) 100) = Inr page \<longrightarrow>
      tw_getMyPosts tv rt n s =
        (Inr (map (\<lambda>t. mapTwitterTweetToPost rt t (page_includes page)) (or_empty (page_data page))),
         s, [''v2.me'', ''v2.userTimeline''])"
    by (simp add: tw_getMyPosts_def tw_getMe_run map_page_def run_simps mapTwitterUserToUser_def)
  have q: "tw_client s = Some c \<and>
      v2_search tv c (query so) (or_num (search_limit so) 20) (startTime so) (endTime so) =
        Inr page \<longrightarrow>
      tw_search tv rt so s =
        (Inr (map (\<lambda>t. mapTwitterTweetToPost rt t (page_includes page)) (or_empty (page_data page))),
         s, [''v2.search''])"
    by (simp add: tw_search_def map_page_def run_simps)
  from a f m q show ?thesis by (intro conjI)
qed

theorem unknown_author_fallback_witness:
  "author_missing orphan_tweet (page_includes hello_page)
 \<and> author (mapTwitterTweetToPost example_runtime orphan_tweet (page_includes hello_page)) =
     \<lparr>user_id = ''8'', username = ''unknown'', displayName = ''Unknown User'',
      avatarUrl = None, bio = None, followersCount = None, followingCount = None,
      verified = None\<rparr>
 \<and> fst (tw_getFeed twitter_ok example_runtime default_feed tw_authenticated) =
     Inr [mapTwitterTweetToPost example_runtime hello_tweet (page_includes hello_page),
          mapTwitterTweetToPost example_runtime orphan_tweet (page_includes hello_page)]
 \<and> fst (tw_getMyPosts twitter_ok example_runtime 10 tw_authenticated) =
     Inr [mapTwitterTweetToPost example_runtime hello_tweet (page_includes hello_page),
          mapTwitterTweetToPost example_runtime orphan_tweet (page_includes hello_page)]
 \<and> fst (tw_search twitter_ok example_runtime search_cats tw_authenticated) =
     Inr [mapTwitterTweetToPost example_runtime hello_tweet (page_includes hello_page),
          mapTwitterTweetToPost example_runtime orphan_tweet (page_includes hello_page)]"
proof -
  have am: "author_missing orphan_tweet (page_includes hello_page)"
    by (simp add: author_missing_def example_simps)
  from am
    unknown_author_fallback [where tweet = orphan_tweet and incs = "page_includes hello_page"
      and rt = example_runtime and s = tw_authenticated and c = oauth_client and tv = twitter_ok
      and me = ada and fo = default_feed and page = hello_page and n = 10
      and so = search_cats]
  show ?thesis
    by (simp add: placeholder_author_def or_num_def or_empty_def)
       (simp add: example_simps)
qed

section \<open>Multi-platform posting\<close>




section \<open>Posting and reading back\<close>

text \<open>
  C5, as the code has it, on an adapter that holds its client (on Twitter the read-write
  client for \<open>post\<close>, on LinkedIn the profile id as well). Twitter: when the vendor
  accepts a tweet of the text "hello" and the tweet it returns for the new id has that
  text, \<open>post\<close> returns a \<open>Post\<close> with the content "hello" and the tag twitter.
  LinkedIn: when the vendor accepts the share whose commentary is "hello" and answers
  the request for the own profile that \<open>post\<close> makes next, \<open>post\<close> returns a \<open>Post\<close>
  with the new id, the content "hello" and the tag linkedin. Instagram: a post of the
  text alone is rejected before any request; with a media URL, when the vendor accepts
  the container with the caption "hello" and its publication, returns the published
  media and answers the request for the own profile, \<open>post\<close> returns a \<open>Post\<close> with
  the media's id, the media's caption as content (empty when it has none) and the tag
  instagram. Feeds: when the vendor answers the feed request with an item whose text
  (caption) is "hello" and answers the request for the own profile, \<open>getFeed\<close> holds a
  \<open>Post\<close> with that item's id, the content "hello" and the adapter's tag.
\<close>

theorem post_then_read:
  "(readWriteClient st = Some c \<and> v2_tweet tv c ''hello'' None = Inr i \<and>
    v2_singleTweet tv c i = Inr (t, inc) \<and> tweet_text t = ''hello'' \<longrightarrow>
      fst (tw_post tv rt (text_only ''hello'') st) = Inr (mapTwitterTweetToPost rt t inc)
    \<and> content (mapTwitterTweetToPost rt t inc) = ''hello''
    \<and> platform (mapTwitterTweetToPost rt t inc) = TWITTER)
 \<and> (tw_client st = Some c' \<and> v2_me tv c' = Inr me \<and>
    v2_homeTimeline tv c' (or_num (feed_limit fo) 20) False = Inr page \<and>
    t' \<in> set (or_empty (page_data page)) \<and> tweet_text t' = ''hello'' \<longrightarrow>
      feed_has TWITTER (tweet_id t') ''hello'' (fst (tw_getFeed tv rt fo st)))
 \<and> (li_client sl = Some d \<and> profileId sl = Some pid \<and> pid \<noteq> [] \<and>
    li_post_ugcPosts lv d (hello_share pid) = Inr j \<and> li_get_me lv d = Inr prof \<longrightarrow>
      post_has LINKEDIN j ''hello'' (fst (li_post lv rt (text_only ''hello'') sl)))
 \<and> (li_client sl = Some d \<and> profileId sl = Some pid \<and> pid \<noteq> [] \<and>
    li_get_ugcPosts lv d (''List('' @ person_urn pid @ '')'') (or_num (feed_limit fo) 20) =
      Inr elements \<and>
    li_get_me lv d = Inr prof \<and>
    x \<in> set (or_empty elements) \<and> lpost_text_text x = Some ''hello'' \<longrightarrow>
      feed_has LINKEDIN (lpost_id x) ''hello'' (fst (li_getFeed lv rt fo sl)))
 \<and> (ig_client si = Some a \<longrightarrow>
      ig_post iv rt (text_only ''hello'') si =
        (Inl (createError INSTAGRAM
                ''Instagram requires an image or video URL to post'' None None), si, []))
 \<and> (ig_client si = Some a \<and> u \<noteq> [] \<and>
    ig_post_media iv a (userId (ig_config si)) u ''hello'' = Inr cid \<and>
    ig_post_media_publish iv a (userId (ig_config si)) cid = Inr mid \<and>
    ig_get_media iv a mid = Inr m \<and>
    ig_get_user iv a (userId (ig_config si)) = Inr usr \<longrightarrow>
      post_has INSTAGRAM (im_id m) (case im_caption m of None \<Rightarrow> [] | Some cap \<Rightarrow> cap)
        (fst (ig_post iv rt (with_media u (text_only ''hello'')) si)))
 \<and> (ig_client si = Some a \<and>
    ig_get_user_media iv a (userId (ig_config si)) (or_num (feed_limit fo) 20) = Inr data \<and>
    ig_get_user iv a (userId (ig_config si)) = Inr usr \<and>
    m' \<in> set (or_empty data) \<and> im_caption m' = Some ''hello'' \<longrightarrow>
      feed_has INSTAGRAM (im_id m') ''hello'' (fst (ig_getFeed iv rt fo si)))"
proof -
  have c1: "readWriteClient st = Some c \<and> v2_tweet tv c ''hello'' None = Inr i \<and>
    v2_singleTweet tv c i = Inr (t, inc) \<and> tweet_text t = ''hello'' \<longrightarrow>
      fst (tw_post tv rt (text_only ''hello'') st) = Inr (mapTwitterTweetToPost rt t inc)
    \<and> content (mapTwitterTweetToPost rt t inc) = ''hello''
    \<and> platform (mapTwitterTweetToPost rt t inc) = TWITTER"
  proof (rule impI)
    assume "readWriteClient st = Some c \<and> v2_tweet tv c ''hello'' None = Inr i \<and>
      v2_singleTweet tv c i = Inr (t, inc) \<and> tweet_text t = ''hello''"
    then have "fst (tw_post tv rt (text_only ''hello'') st) = Inr (mapTwitterTweetToPost rt t inc)"
      and "content (mapTwitterTweetToPost rt t inc) = ''hello''"
      and "platform (mapTwitterTweetToPost rt t inc) = TWITTER"
      by (simp_all add: tw_post_def text_only_def run_simps)
         (simp_all add: mapTwitterTweetToPost_def Let_def)
    then show "fst (tw_post tv rt (text_only ''hello'') st) = Inr (mapTwitterTweetToPost rt t inc)
      \<and> content (mapTwitterTweetToPost rt t inc) = ''hello''
      \<and> platform (mapTwitterTweetToPost rt t inc) = TWITTER"
      by blast
  qed
  have c2: "tw_client st = Some c' \<and> v2_me tv c' = Inr me \<and>
    v2_homeTimeline tv c' (or_num (feed_limit fo) 20) False = Inr page \<and>
    t' \<in> set (or_empty (page_data page)) \<and> tweet_text t' = ''hello'' \<longrightarrow>
      feed_has TWITTER (tweet_id t') ''hello'' (fst (tw_getFeed tv rt fo st))"
  proof (rule impI)
    assume h: "tw_client st = Some c' \<and> v2_me tv c' = Inr me \<and>
      v2_homeTimeline tv c' (or_num (feed_limit fo) 20) False = Inr page \<and>
      t' \<in> set (or_empty (page_data page)) \<and> tweet_text t' = ''hello''"
    then have "fst (tw_getFeed tv rt fo st) =
        Inr (map (\<lambda>tweet. mapTwitterTweetToPost rt tweet (page_includes page))
               (or_empty (page_data page)))"
      by (simp add: tw_getFeed_def tw_getMe_run map_page_def run_simps)
    moreover from h have "feed_has TWITTER (tweet_id t') ''hello''
        (Inr (map (\<lambda>tweet. mapTwitterTweetToPost rt tweet (page_includes page))
                (or_empty (page_data page))))"
      by (intro feed_has_map [of t']) (simp_all add: mapTwitterTweetToPost_def Let_def)
    ultimately show "feed_has TWITTER (tweet_id t') ''hello'' (fst (tw_getFeed tv rt fo st))"
      by simp
  qed
  have c3: "li_client sl = Some d \<and> profileId sl = Some pid \<and> pid \<noteq> [] \<and>
    li_post_ugcPosts lv d (hello_share pid) = Inr j \<and> li_get_me lv d = Inr prof \<longrightarrow>
      post_has LINKEDIN j ''hello'' (fst (li_post lv rt (text_only ''hello'') sl))"
    by (simp add: post_has_def li_post_def li_getMe_run text_only_def hello_share_def run_simps
        or_default_def)
  have c4: "li_client sl = Some d \<and> profileId sl = Some pid \<and> pid \<noteq> [] \<and>
    li_get_ugcPosts lv d (''List('' @ person_urn pid @ '')'') (or_num (feed_limit fo) 20) =
      Inr elements \<and>
    li_get_me lv d = Inr prof \<and>
    x \<in> set (or_empty elements) \<and> lpost_text_text x = Some ''hello'' \<longrightarrow>
      feed_has LINKEDIN (lpost_id x) ''hello'' (fst (li_getFeed lv rt fo sl))"
  proof (rule impI)
    assume h: "li_client sl = Some d \<and> profileId sl = Some pid \<and> pid \<noteq> [] \<and>
      li_get_ugcPosts lv d (''List('' @ person_urn pid @ '')'') (or_num (feed_limit fo) 20) =
        Inr elements \<and>
      li_get_me lv d = Inr prof \<and>
      x \<in> set (or_empty elements) \<and> lpost_text_text x = Some ''hello''"
    then have "fst (li_getFeed lv rt fo sl) =
        Inr (map (\<lambda>post. mapLinkedInPostToPost post (mapLinkedInProfileToUser prof))
               (or_empty elements))"
      by (simp add: li_getFeed_def li_getMe_run run_simps)
    moreover from h have "feed_has LINKEDIN (lpost_id x) ''hello''
        (Inr (map (\<lambda>post. mapLinkedInPostToPost post (mapLinkedInProfileToUser prof))
                (or_empty elements)))"
      by (intro feed_has_map [of x])
         (simp_all add: mapLinkedInPostToPost_def or_default_def or_str_def)
    ultimately show "feed_has LINKEDIN (lpost_id x) ''hello'' (fst (li_getFeed lv rt fo sl))"
      by simp
  qed
  have c5: "ig_client si = Some a \<longrightarrow>
      ig_post iv rt (text_only ''hello'') si =
        (Inl (createError INSTAGRAM
                ''Instagram requires an image or video URL to post'' None None), si, [])"
    by (simp add: ig_post_def text_only_def first_elem_def run_simps)
  have c6: "ig_client si = Some a \<and> u \<noteq> [] \<and>
    ig_post_media iv a (userId (ig_config si)) u ''hello'' = Inr cid \<and>
    ig_post_media_publish iv a (userId (ig_config si)) cid = Inr mid \<and>
    ig_get_media iv a mid = Inr m \<and>
    ig_get_user iv a (userId (ig_config si)) = Inr usr \<longrightarrow>
      post_has INSTAGRAM (im_id m) (case im_caption m of None \<Rightarrow> [] | Some cap \<Rightarrow> cap)
        (fst (ig_post iv rt (with_media u (text_only ''hello'')) si))"
    by (simp add: post_has_def ig_post_def ig_getMe_run with_media_def text_only_def
        first_elem_def run_simps or_default_def or_str_def mapInstagramMediaToPost_def Let_def
        split: option.splits)
  have c7: "ig_client si = Some a \<and>
    ig_get_user_media iv a (userId (ig_config si)) (or_num (feed_limit fo) 20) = Inr data \<and>
    ig_get_user iv a (userId (ig_config si)) = Inr usr \<and>
    m' \<in> set (or_empty data) \<and> im_caption m' = Some ''hello'' \<longrightarrow>
      feed_has INSTAGRAM (im_id m') ''hello'' (fst (ig_getFeed iv rt fo si))"
  proof (rule impI)
    assume h: "ig_client si = Some a \<and>
      ig_get_user_media iv a (userId (ig_config si)) (or_num (feed_limit fo) 20) = Inr data \<and>
      ig_get_user iv a (userId (ig_config si)) = Inr usr \<and>
      m' \<in> set (or_empty data) \<and> im_caption m' = Some ''hello''"
    then have "fst (ig_getFeed iv rt fo si) =
        Inr (map (\<lambda>media. mapInstagramMediaToPost rt media (mapInstagramUserToUser usr))
               (or_empty data))"
      by (simp add: ig_getFeed_def ig_getMe_run run_simps)
    moreover from h have "feed_has INSTAGRAM (im_id m') ''hello''
        (Inr (map (\<lambda>media. mapInstagramMediaToPost rt media (mapInstagramUserToUser usr))
                (or_empty data)))"
      by (intro feed_has_map [of m']) (simp_all add: mapInstagramMediaToPost_def or_default_def)
    ultimately show "feed_has INSTAGRAM (im_id m') ''hello'' (fst (ig_getFeed iv rt fo si))"
      by simp
  qed
  from c1 c2 c3 c4 c5 c6 c7 show ?thesis by (intro conjI)
qed

theorem post_then_read_witness:
  "fst (tw_post twitter_ok example_runtime (text_only ''hello'') tw_authenticated) =
     Inr (mapTwitterTweetToPost example_runtime hello_tweet None)
 \<and> content (mapTwitterTweetToPost example_runtime hello_tweet None) = ''hello''
 \<and> platform (mapTwitterTweetToPost example_runtime hello_tweet None) = TWITTER
 \<and> feed_has TWITTER ''100'' ''hello''
      (fst (tw_getFeed twitter_ok example_runtime default_feed tw_authenticated))
 \<and> post_has LINKEDIN ''urn:li:share:300'' ''hello''
      (fst (li_post linkedin_ok example_runtime (text_only ''hello'') li_authenticated))
 \<and> feed_has LINKEDIN ''urn:li:share:300'' ''hello''
      (fst (li_getFeed linkedin_ok example_runtime default_feed li_authenticated))
 \<and> ig_post instagram_ok example_runtime (text_only ''hello'') ig_authenticated =
      (Inl (createError INSTAGRAM
              ''Instagram requires an image or video URL to post'' None None),
       ig_authenticated, [])
 \<and> post_has INSTAGRAM ''200'' ''hello''
      (fst (ig_post instagram_ok example_runtime
              (with_media ''https://example.org/a.jpg'' (text_only ''hello''))
              ig_authenticated))
 \<and> feed_has INSTAGRAM ''200'' ''hello''
      (fst (ig_getFeed instagram_ok example_runtime default_feed ig_authenticated))"
  using post_then_read [where st = tw_authenticated and c = oauth_client and tv = twitter_ok
      and i = "''100''" and t = hello_tweet and inc = None and rt = example_runtime
      and c' = oauth_client and me = ada and fo = default_feed and page = hello_page
      and t' = hello_tweet and sl = li_authenticated and d = li_axios_t and pid = "''abc''"
      and lv = linkedin_ok and j = "''urn:li:share:300''" and prof = li_ada
      and elements = "Some [li_hello]" and x = li_hello and si = ig_authenticated
      and a = ig_axios_t and iv = instagram_ok and u = "''https://example.org/a.jpg''"
      and cid = "''199''" and mid = "''200''" and m = ig_hello and usr = ig_ada
      and data = "Some [ig_hello]" and m' = ig_hello]
  by (simp add: example_simps or_num_def or_empty_def hello_share_def person_urn_def)

text \<open>
  The answer to the profile request matters: \<open>post\<close> on LinkedIn and Instagram and
  \<open>getFeed\<close> on all three adapters await \<open>getMe()\<close>, and throw its error when the
  profile request fails, also after the vendor took the share or returned the feed.
\<close>

lemma profile_request_needed:
  "li_post linkedin_unreachable example_runtime (text_only ''hello'') li_authenticated =
     (Inl (handleError LINKEDIN example_runtime
             (handleError LINKEDIN example_runtime network_error)),
      li_authenticated, [''POST /ugcPosts'', ''GET /me''])
 \<and> li_getFeed linkedin_unreachable example_runtime default_feed li_authenticated =
     (Inl (handleError LINKEDIN example_runtime
             (handleError LINKEDIN example_runtime network_error)),
      li_authenticated, [''GET /ugcPosts'', ''GET /me''])
 \<and> ig_getFeed instagram_expired example_runtime default_feed ig_authenticated =
     (Inl (handleError INSTAGRAM example_runtime
             (handleError INSTAGRAM example_runtime axios_unauthorized)),
      ig_authenticated, [''GET /{userId}/media'', ''GET /{userId}''])
 \<and> ig_post instagram_expired example_runtime
       (with_media ''https://example.org/a.jpg'' (text_only ''hello'')) ig_authenticated =
     (Inl (handleError INSTAGRAM example_runtime
             (handleError INSTAGRAM example_runtime axios_unauthorized)),
      ig_authenticated,
      [''POST /{userId}/media'', ''POST /{userId}/media_publish'', ''GET /{mediaId}'',
       ''GET /{userId}''])
 \<and> tw_getFeed twitter_rate_limited example_runtime default_feed tw_authenticated =
     (Inl (handleError TWITTER example_runtime
             (handleError TWITTER example_runtime too_many_requests)),
      tw_authenticated, [''v2.me''])"
  by (simp add: li_post_def li_getFeed_def ig_getFeed_def ig_post_def tw_getFeed_def
      li_getMe_run ig_getMe_run tw_getMe_run bnd_def ret_def gets_def request_def throw_def
      try_catch_def with_media_def first_elem_def or_str_def or_default_def Let_def
      linkedin_unreachable_def linkedin_ok_def instagram_expired_def instagram_ok_def
      twitter_rate_limited_def twitter_ok_def li_authenticated_def ig_authenticated_def
      tw_authenticated_def text_only_def)

text \<open>
  The claim as stated fails on the Instagram adapter: posting the text "hello" throws
  before any request goes out, so nothing was published that could be read back.
\<close>

theorem instagram_text_post_counterexample:
  "ig_post instagram_ok example_runtime (text_only ''hello'') ig_authenticated =
     (Inl (createError INSTAGRAM ''Instagram requires an image or video URL to post'' None None),
      ig_authenticated, [])"
  by (simp add: ig_post_def run_simps example_simps first_elem_def)

end
